theory Spec2Isabelle
  imports Main
begin

section \<open>Strings\<close>

text \<open>
  A Go string is modelled as the list of its bytes (\<open>string\<close>); text is UTF-8.
  \<open>space_encodings\<close> lists the UTF-8 encodings of the runes for which \<open>unicode.IsSpace\<close>
  holds: U+0009 to U+000D, U+0020, U+0085, U+00A0, U+1680, U+2000 to U+200A, U+2028,
  U+2029, U+202F, U+205F and U+3000. The decoder of Go accepts only these shortest forms,
  answers every other byte sequence with a rune that is no white space, and never takes a
  byte that starts a rune as the continuation of another one. A white-space rune
  therefore begins at a position of the string exactly when one of the encodings is a
  prefix of the rest, and ends at a position exactly when one of them is a suffix of the
  part before.
\<close>

definition space_encodings :: "string list" where
  "space_encodings =
     [[CHR 0x09], [CHR 0x0A], [CHR 0x0B], [CHR 0x0C], [CHR 0x0D], [CHR 0x20],
      [CHR 0xC2, CHR 0x85], [CHR 0xC2, CHR 0xA0],
      [CHR 0xE1, CHR 0x9A, CHR 0x80],
      [CHR 0xE2, CHR 0x80, CHR 0x80], [CHR 0xE2, CHR 0x80, CHR 0x81], [CHR 0xE2, CHR 0x80, CHR 0x82],
      [CHR 0xE2, CHR 0x80, CHR 0x83], [CHR 0xE2, CHR 0x80, CHR 0x84], [CHR 0xE2, CHR 0x80, CHR 0x85],
      [CHR 0xE2, CHR 0x80, CHR 0x86], [CHR 0xE2, CHR 0x80, CHR 0x87], [CHR 0xE2, CHR 0x80, CHR 0x88],
      [CHR 0xE2, CHR 0x80, CHR 0x89], [CHR 0xE2, CHR 0x80, CHR 0x8A],
      [CHR 0xE2, CHR 0x80, CHR 0xA8], [CHR 0xE2, CHR 0x80, CHR 0xA9], [CHR 0xE2, CHR 0x80, CHR 0xAF],
      [CHR 0xE2, CHR 0x81, CHR 0x9F],
      [CHR 0xE3, CHR 0x80, CHR 0x80]]"

text \<open>A byte that continues a rune (\<open>utf8.RuneStart\<close> is false of it).\<close>

definition cont_byte :: "char \<Rightarrow> bool" where
  "cont_byte c = (128 \<le> (of_char c :: nat) \<and> (of_char c :: nat) < 192)"

text \<open>
  \<open>width_of encs s\<close>: the number of bytes of the encoding of \<open>encs\<close> that \<open>s\<close> begins
  with, 0 when there is none. \<open>strip encs s\<close> removes such encodings from the front of
  \<open>s\<close> as long as there is one.
\<close>

definition width_of :: "string list \<Rightarrow> string \<Rightarrow> nat" where
  "width_of encs s = (case find (\<lambda>e. take (length e) s = e) encs of None \<Rightarrow> 0 | Some e \<Rightarrow> length e)"

function strip :: "string list \<Rightarrow> string \<Rightarrow> string" where
  "strip encs [] = []"
| "strip encs (c # cs) =
     (if width_of encs (c # cs) = 0 then c # cs
      else strip encs (drop (width_of encs (c # cs)) (c # cs)))"
  by pat_completeness auto
termination
  by (relation "measure (\<lambda>(encs, s). length s)") auto

text \<open>
  \<open>strings.TrimSpace\<close> removes the leading white-space runes and then the trailing ones
  (\<open>TrimLeftFunc\<close>, \<open>TrimRightFunc\<close> with \<open>unicode.IsSpace\<close>; the ASCII fast path gives the
  same result).
\<close>

definition TrimLeft :: "string \<Rightarrow> string" where
  "TrimLeft s = strip space_encodings s"

definition TrimRight :: "string \<Rightarrow> string" where
  "TrimRight s = rev (strip (map rev space_encodings) (rev s))"

definition TrimSpace :: "string \<Rightarrow> string" where
  "TrimSpace s = TrimRight (TrimLeft s)"

text \<open>
  \<open>strings.Fields\<close> scans the string once; \<open>cur\<close> is the field being read (empty when
  the scan is between fields). A white-space rune ends the field and is passed over
  whole; any other byte joins the field.
\<close>

function fieldsFrom :: "string \<Rightarrow> string \<Rightarrow> string list" where
  "fieldsFrom cur [] = (if cur = [] then [] else [cur])"
| "fieldsFrom cur (c # cs) =
     (if width_of space_encodings (c # cs) = 0 then fieldsFrom (cur @ [c]) cs
      else if cur = [] then fieldsFrom [] (drop (width_of space_encodings (c # cs)) (c # cs))
      else cur # fieldsFrom [] (drop (width_of space_encodings (c # cs)) (c # cs)))"
  by pat_completeness auto
termination
  by (relation "measure (\<lambda>(cur, s). length s)") auto

definition Fields :: "string \<Rightarrow> string list" where
  "Fields s = fieldsFrom [] s"

definition TrimPrefix :: "string \<Rightarrow> string \<Rightarrow> string" where
  "TrimPrefix s p = (if take (length p) s = p then drop (length p) s else s)"

text \<open>
  \<open>strings.ToLower\<close>. A string of ASCII bytes is lowered byte by byte (the fast path of
  the library). For any other string the library maps \<open>unicode.ToLower\<close> over its runes;
  the case tables are not part of this model, so that function, \<open>strings.Map(unicode.ToLower, s)\<close>,
  is the parameter \<open>mapLower\<close>.
\<close>

definition is_ascii :: "char \<Rightarrow> bool" where
  "is_ascii c = ((of_char c :: nat) < 128)"

definition lower_char :: "char \<Rightarrow> char" where
  "lower_char c =
     (case map_of (zip ''ABCDEFGHIJKLMNOPQRSTUVWXYZ'' ''abcdefghijklmnopqrstuvwxyz'') c of
        Some l \<Rightarrow> l
      | None \<Rightarrow> c)"

definition ToLower :: "(string \<Rightarrow> string) \<Rightarrow> string \<Rightarrow> string" where
  "ToLower mapLower s = (if list_all is_ascii s then map lower_char s else mapLower s)"

definition HasSuffix :: "string \<Rightarrow> string \<Rightarrow> bool" where
  "HasSuffix s suffix = (length suffix \<le> length s \<and> drop (length s - length suffix) s = suffix)"

section \<open>Formatting and parsing of numbers\<close>

text \<open>A Go \<open>error\<close> is modelled by its message.\<close>

type_synonym error = string

text \<open>The verbs \<open>%d\<close> and \<open>%q\<close> of \<open>fmt\<close>. \<open>%q\<close> is modelled for strings
  that need no escape: it puts the string between double quotes.\<close>

definition digit_char :: "nat \<Rightarrow> char" where
  "digit_char n = ''0123456789'' ! n"

function utoa :: "nat \<Rightarrow> string" where
  "utoa n = (if n < 10 then [digit_char n] else utoa (n div 10) @ [digit_char (n mod 10)])"
  by pat_completeness auto
termination
  by (relation "measure id") auto
declare utoa.simps [simp del]

definition itoa :: "int \<Rightarrow> string" where
  "itoa i = (if i < 0 then CHR ''-'' # utoa (nat (- i)) else utoa (nat i))"

definition quote :: "string \<Rightarrow> string" where
  "quote s = [CHR 0x22] @ s @ [CHR 0x22]"

definition hexdigit :: "nat \<Rightarrow> char" where
  "hexdigit n = ''0123456789abcdef'' ! n"

definition hex_EncodeToString :: "string \<Rightarrow> string" where
  "hex_EncodeToString b = concat (map (\<lambda>c. [hexdigit (of_char c div 16), hexdigit (of_char c mod 16)]) b)"

definition is_digit :: "char \<Rightarrow> bool" where
  "is_digit c = (48 \<le> (of_char c :: nat) \<and> (of_char c :: nat) \<le> 57)"

text \<open>\<open>strconv.ParseInt(s, 10, 64)\<close>: an optional sign, then decimal digits, within int64.\<close>

definition ParseInt :: "string \<Rightarrow> error + int" where
  "ParseInt s =
     (let neg = (s \<noteq> [] \<and> hd s = CHR ''-'');
          ds = (if s \<noteq> [] \<and> (hd s = CHR ''-'' \<or> hd s = CHR ''+'') then tl s else s)
      in if ds = [] \<or> \<not> list_all is_digit ds then
           Inl (''strconv.ParseInt: parsing '' @ quote s @ '': invalid syntax'')
         else
           (let n = foldl (\<lambda>a c. 10 * a + (int (of_char c) - 48)) 0 ds;
                v = (if neg then - n else n)
            in if v < - (2 ^ 63) \<or> v > 2 ^ 63 - 1 then
                 Inl (''strconv.ParseInt: parsing '' @ quote s @ '': value out of range'')
               else Inr v))"

section \<open>HTTP responses\<close>

datatype json =
    JNum int
  | JStr string
  | JBool bool
  | JArr "json list"
  | JObj "(string \<times> json) list"

text \<open>
  A response body is either the raw text written by \<open>http.Error\<close> or a JSON
  document written by \<open>writeJSON\<close> / \<open>writeError\<close>. The keys of a JSON object
  are kept as an association list; their order carries no meaning.
\<close>

datatype body = Raw string | JSON json

record response =
  status :: nat
  body :: body

text \<open>\<open>http.Error\<close> writes the message followed by a line feed.\<close>

definition http_Error :: "string \<Rightarrow> nat \<Rightarrow> response" where
  "http_Error msg code = \<lparr>status = code, body = Raw (msg @ [CHR 0x0A])\<rparr>"

definition writeJSON :: "nat \<Rightarrow> json \<Rightarrow> response" where
  "writeJSON code v = \<lparr>status = code, body = JSON v\<rparr>"

definition writeError :: "nat \<Rightarrow> error \<Rightarrow> response" where
  "writeError code err = \<lparr>status = code, body = JSON (JObj [(''error'', JStr err)])\<rparr>"

definition StatusOK :: nat where "StatusOK = 200"

definition StatusCreated :: nat where "StatusCreated = 201"

definition StatusBadRequest :: nat where "StatusBadRequest = 400"

definition StatusForbidden :: nat where "StatusForbidden = 403"

definition StatusNotFound :: nat where "StatusNotFound = 404"

definition StatusMethodNotAllowed :: nat where "StatusMethodNotAllowed = 405"

definition StatusInternalServerError :: nat where "StatusInternalServerError = 500"

definition StatusBadGateway :: nat where "StatusBadGateway = 502"

section \<open>Configuration and registry\<close>

record Config =
  SFTPGoURL :: string
  AdminUser :: string
  AdminPass :: string
  ListenAddr :: string
  DataDir :: string
  S3Bucket :: string
  S3Region :: string
  S3Endpoint :: string
  S3AccessKey :: string
  S3SecretKey :: string
  S3UseSSL :: bool

text \<open>Times are instants on a line of integers (nanoseconds); row ids are integers.\<close>

record Tenant =
  ID :: int
  TenantID :: string
  Username :: string
  Password :: string
  PublicKey :: string
  HomeDir :: string
  CreatedAt :: int

text \<open>
  The \<open>value\<close> column holds a float64. No operation of the registry computes with
  it, so its type is a parameter \<open>'v\<close>.
\<close>

record 'v Record =
  rec_ID :: int
  rec_TenantID :: string
  RecordKey :: string
  Title :: string
  Description :: string
  Category :: string
  Value :: 'v
  UpdatedAt :: int

text \<open>
  The registry is the content of the tables \<open>tenants\<close> and \<open>records\<close> created by
  \<open>NewDB\<close>, each a list of rows in insertion order. The schema constraints
  (\<open>tenant_id TEXT UNIQUE\<close>, \<open>username TEXT UNIQUE\<close>, \<open>UNIQUE(tenant_id, record_key)\<close>)
  are enforced by the statements below, as the storage engine does. Failures of the
  storage engine other than constraint violations are an explicit argument of the
  operations that a claim observes failing.
\<close>

record 'v DB =
  tenants :: "Tenant list"
  records :: "'v Record list"

definition NewDB :: "'v DB" where
  "NewDB = \<lparr>tenants = [], records = []\<rparr>"

text \<open>\<open>INTEGER PRIMARY KEY\<close>: a new row gets the largest id of the table plus one.\<close>

definition next_rowid :: "int list \<Rightarrow> int" where
  "next_rowid ids = foldr max ids 0 + 1"

definition ErrNoRows :: error where
  "ErrNoRows = ''sql: no rows in result set''"

definition GetTenantByUsername :: "'v DB \<Rightarrow> string \<Rightarrow> error + Tenant" where
  "GetTenantByUsername db username =
     (case find (\<lambda>t. Username t = username) (tenants db) of
        None \<Rightarrow> Inl (''get tenant by username '' @ quote username @ '': '' @ ErrNoRows)
      | Some t \<Rightarrow> Inr t)"

section \<open>Authentication hook\<close>

record auth_request =
  req_Username :: string
  req_Password :: string
  req_PublicKey :: string
  req_Protocol :: string
  req_IP :: string

text \<open>The two credential checks of \<open>ExternalAuthHook\<close>, in the order of the source.\<close>

definition pubkey_step :: "auth_request \<Rightarrow> Tenant \<Rightarrow> bool \<Rightarrow> bool" where
  "pubkey_step req tenant authenticated =
     (if req_PublicKey req \<noteq> [] \<and> PublicKey tenant \<noteq> [] then
        (let reqParts = Fields (TrimSpace (req_PublicKey req));
             storedParts = Fields (TrimSpace (PublicKey tenant))
         in if length reqParts \<ge> 2 \<and> length storedParts \<ge> 2 \<and> reqParts ! 1 = storedParts ! 1
            then True else authenticated)
      else authenticated)"

definition password_step :: "auth_request \<Rightarrow> Tenant \<Rightarrow> bool \<Rightarrow> bool" where
  "password_step req tenant authenticated =
     (if \<not> authenticated \<and> req_Password req \<noteq> [] \<and> Password tenant \<noteq> [] then
        (if req_Password req = Password tenant then True else authenticated)
      else authenticated)"

definition s3config_json :: "string \<Rightarrow> string \<Rightarrow> string \<Rightarrow> string \<Rightarrow> string \<Rightarrow> string \<Rightarrow> json" where
  "s3config_json bucket region endpoint accessKey secretKey tenantID =
     JObj [(''provider'', JNum 1),
           (''s3config'', JObj [
              (''bucket'', JStr bucket),
              (''region'', JStr region),
              (''endpoint'', JStr endpoint),
              (''access_key'', JStr accessKey),
              (''access_secret'', JObj [(''status'', JStr ''Plain''), (''payload'', JStr secretKey)]),
              (''key_prefix'', JStr (tenantID @ ''/'')),
              (''force_path_style'', JBool True),
              (''skip_tls_verify'', JBool True)])]"

definition sftpgoUser :: "Config \<Rightarrow> Tenant \<Rightarrow> json" where
  "sftpgoUser cfg tenant =
     JObj ([(''status'', JNum 1),
            (''username'', JStr (Username tenant)),
            (''home_dir'', JStr (HomeDir tenant)),
            (''permissions'', JObj [(''/'', JArr [JStr ''*''])])]
           @ (if Password tenant \<noteq> [] then [(''password'', JStr (Password tenant))] else [])
           @ (if PublicKey tenant \<noteq> [] then [(''public_keys'', JArr [JStr (PublicKey tenant)])] else [])
           @ (if S3Endpoint cfg \<noteq> [] then
                [(''filesystem'', s3config_json (S3Bucket cfg) (S3Region cfg) (S3Endpoint cfg)
                     (S3AccessKey cfg) (S3SecretKey cfg) (TenantID tenant))]
              else []))"

text \<open>
  The handler. \<open>reqBody\<close> is the result of decoding the request body: \<open>None\<close> when
  the JSON decoder returns an error.
\<close>

definition ExternalAuthHook :: "Config \<Rightarrow> 'v DB \<Rightarrow> string \<Rightarrow> auth_request option \<Rightarrow> response" where
  \<open>ExternalAuthHook cfg db rMethod reqBody =
     (if rMethod \<noteq> ''POST'' then http_Error ''{"error":"method not allowed"}'' StatusMethodNotAllowed
      else case reqBody of
        None \<Rightarrow> http_Error ''{"username":""}'' StatusOK
      | Some req \<Rightarrow>
          (case GetTenantByUsername db (req_Username req) of
             Inl err \<Rightarrow> http_Error [] StatusForbidden
           | Inr tenant \<Rightarrow>
               (let authenticated = False;
                    authenticated = pubkey_step req tenant authenticated;
                    authenticated = password_step req tenant authenticated
                in if \<not> authenticated then http_Error [] StatusForbidden
                   else writeJSON StatusOK (sftpgoUser cfg tenant))))\<close>

text \<open>
  The credential rule in the words of the specification: the second white-space
  separated fields of the two keys are equal, or the passwords are non-empty and equal.
\<close>

definition spec_pubkey_match :: "auth_request \<Rightarrow> Tenant \<Rightarrow> bool" where
  "spec_pubkey_match req tenant =
     (req_PublicKey req \<noteq> [] \<and> PublicKey tenant \<noteq> [] \<and>
      length (Fields (req_PublicKey req)) \<ge> 2 \<and> length (Fields (PublicKey tenant)) \<ge> 2 \<and>
      Fields (req_PublicKey req) ! 1 = Fields (PublicKey tenant) ! 1)"

definition spec_password_match :: "auth_request \<Rightarrow> Tenant \<Rightarrow> bool" where
  "spec_password_match req tenant =
     (req_Password req \<noteq> [] \<and> Password tenant \<noteq> [] \<and> req_Password req = Password tenant)"

section \<open>Registry operations\<close>

text \<open>
  Every operation takes the registry and returns its result together with the registry
  after the call. \<open>now\<close> is the value of \<open>CURRENT_TIMESTAMP\<close>. The text of a constraint
  error is the storage engine's.
\<close>

definition CreateTenant ::
  "'v DB \<Rightarrow> int \<Rightarrow> string \<Rightarrow> string \<Rightarrow> string \<Rightarrow> string \<Rightarrow> string \<Rightarrow> (error + Tenant) \<times> 'v DB" where
  "CreateTenant db now tenantID username password publicKey homeDir =
     (if \<exists>t \<in> set (tenants db). TenantID t = tenantID then
        (Inl (''insert tenant: '' @ ''UNIQUE constraint failed: tenants.tenant_id''), db)
      else if \<exists>t \<in> set (tenants db). Username t = username then
        (Inl (''insert tenant: '' @ ''UNIQUE constraint failed: tenants.username''), db)
      else
        (let newID = next_rowid (map ID (tenants db));
             t = \<lparr>ID = newID, TenantID = tenantID, Username = username, Password = password,
                  PublicKey = publicKey, HomeDir = homeDir, CreatedAt = now\<rparr>
         in (Inr t, db\<lparr>tenants := tenants db @ [t]\<rparr>)))"

definition GetTenant :: "'v DB \<Rightarrow> int \<Rightarrow> error + Tenant" where
  "GetTenant db i =
     (case find (\<lambda>t. ID t = i) (tenants db) of
        None \<Rightarrow> Inl (''get tenant '' @ itoa i @ '': '' @ ErrNoRows)
      | Some t \<Rightarrow> Inr t)"

definition UpdateTenantPublicKey :: "'v DB \<Rightarrow> int \<Rightarrow> string \<Rightarrow> error option \<times> 'v DB" where
  "UpdateTenantPublicKey db i publicKey =
     (None, db\<lparr>tenants := map (\<lambda>t. if ID t = i then t\<lparr>PublicKey := publicKey\<rparr> else t) (tenants db)\<rparr>)"

definition DeleteTenant :: "'v DB \<Rightarrow> int \<Rightarrow> (error + string) \<times> 'v DB" where
  "DeleteTenant db i =
     (case find (\<lambda>t. ID t = i) (tenants db) of
        None \<Rightarrow> (Inl (''find tenant '' @ itoa i @ '': '' @ ErrNoRows), db)
      | Some t \<Rightarrow> (Inr (Username t), db\<lparr>tenants := filter (\<lambda>t. ID t \<noteq> i) (tenants db)\<rparr>))"

text \<open>
  \<open>UpsertRecord\<close>: \<open>fault\<close> is the error, if any, that the storage engine raises for the
  statement; the statement then changes nothing. Otherwise the row with the same
  (tenant_id, record_key) is overwritten, or a new row is inserted.
\<close>

definition same_key :: "string \<Rightarrow> string \<Rightarrow> 'v Record \<Rightarrow> bool" where
  "same_key tenantID recordKey r = (rec_TenantID r = tenantID \<and> RecordKey r = recordKey)"

definition UpsertRecord ::
  "'v DB \<Rightarrow> int \<Rightarrow> error option \<Rightarrow> string \<Rightarrow> string \<Rightarrow> string \<Rightarrow> string \<Rightarrow> string \<Rightarrow> 'v \<Rightarrow> error option \<times> 'v DB" where
  "UpsertRecord db now fault tenantID recordKey title description category val =
     (case fault of
        Some e \<Rightarrow> (Some (''upsert record: '' @ e), db)
      | None \<Rightarrow>
          (if \<exists>r \<in> set (records db). same_key tenantID recordKey r then
             (None, db\<lparr>records := map (\<lambda>r. if same_key tenantID recordKey r
                                              then r\<lparr>Title := title, Description := description,
                                                     Category := category, Value := val, UpdatedAt := now\<rparr>
                                              else r) (records db)\<rparr>)
           else
             (None, db\<lparr>records := records db @
                [\<lparr>rec_ID = next_rowid (map rec_ID (records db)), rec_TenantID = tenantID,
                  RecordKey = recordKey, Title = title, Description = description,
                  Category = category, Value = val, UpdatedAt = now\<rparr>]\<rparr>)))"

definition ListRecords :: "'v DB \<Rightarrow> string \<Rightarrow> 'v Record list" where
  "ListRecords db tenantID = sort_key rec_ID (filter (\<lambda>r. rec_TenantID r = tenantID) (records db))"

text \<open>The uniqueness constraints of the schema, as predicates on a registry.\<close>

definition tenants_unique :: "'v DB \<Rightarrow> bool" where
  "tenants_unique db = (distinct (map Username (tenants db)) \<and> distinct (map TenantID (tenants db)))"

definition records_unique :: "'v DB \<Rightarrow> bool" where
  "records_unique db = distinct (map (\<lambda>r. (rec_TenantID r, RecordKey r)) (records db))"

text \<open>A sequence of registry calls on the tenants table.\<close>

datatype tenant_op =
    OpCreate int string string string string string
  | OpUpdateKey int string
  | OpDelete int

fun apply_tenant_op :: "'v DB \<Rightarrow> tenant_op \<Rightarrow> 'v DB" where
  "apply_tenant_op db (OpCreate now tid u p k h) = snd (CreateTenant db now tid u p k h)"
| "apply_tenant_op db (OpUpdateKey i k) = snd (UpdateTenantPublicKey db i k)"
| "apply_tenant_op db (OpDelete i) = snd (DeleteTenant db i)"

definition run_tenant_ops :: "tenant_op list \<Rightarrow> 'v DB" where
  "run_tenant_ops ops = foldl apply_tenant_op NewDB ops"

section \<open>External server client\<close>

datatype http_auth = NoAuth | BasicAuth string string | Bearer string

record http_request =
  rq_method :: string
  rq_url :: string
  rq_auth :: http_auth
  rq_body :: "json option"

record http_response =
  StatusCode :: nat
  resp_Body :: string

text \<open>
  What a call of the program obtains from outside: the clock, the random source, the
  network and the library functions that are not modelled here.
  \<^item> \<open>Now\<close>: \<open>time.Now()\<close> and \<open>CURRENT_TIMESTAMP\<close>;
  \<^item> \<open>NewRequest_err m url\<close>: the error of \<open>http.NewRequest\<close> for the verb \<open>m\<close>, if any;
  \<^item> \<open>Do\<close>: \<open>http.DefaultClient.Do\<close>, a transport error or the response;
  \<^item> \<open>decode_token\<close>: the JSON decoding of a token response into its fields
    \<open>access_token\<close> and \<open>expires_at\<close>, or the decoder's error;
  \<^item> \<open>rand_password\<close>, \<open>rand_tenant_id\<close>: the outcome of the \<open>rand.Read\<close> that fills
    the 16-byte buffer of the password and of the tenant token;
  \<^item> \<open>filepath_Join\<close>: \<open>filepath.Join\<close>.
\<close>

record world =
  Now :: int
  NewRequest_err :: "string \<Rightarrow> string \<Rightarrow> error option"
  Do :: "http_request \<Rightarrow> error + http_response"
  decode_token :: "string \<Rightarrow> error + (string \<times> int)"
  rand_password :: "error + string"
  rand_tenant_id :: "error + string"
  filepath_Join :: "string \<Rightarrow> string \<Rightarrow> string"

record SFTPGoClient =
  baseURL :: string
  adminUser :: string
  adminPass :: string
  token :: string
  tokenExp :: int

definition NewSFTPGoClient :: "string \<Rightarrow> string \<Rightarrow> string \<Rightarrow> SFTPGoClient" where
  "NewSFTPGoClient url user pass =
     \<lparr>baseURL = url, adminUser = user, adminPass = pass, token = [], tokenExp = 0\<rparr>"

definition Second :: int where
  "Second = 1000000000"

text \<open>
  Every client call returns its result, the client after the call and the requests it
  put on the network, in order.
\<close>

definition token_request :: "SFTPGoClient \<Rightarrow> http_request" where
  "token_request c =
     \<lparr>rq_method = ''GET'', rq_url = baseURL c @ ''/api/v2/token'',
      rq_auth = BasicAuth (adminUser c) (adminPass c), rq_body = None\<rparr>"

definition getToken :: "world \<Rightarrow> SFTPGoClient \<Rightarrow> (error + string) \<times> SFTPGoClient \<times> http_request list" where
  "getToken w c =
     (if token c \<noteq> [] \<and> Now w < tokenExp c then (Inr (token c), c, [])
      else case NewRequest_err w ''GET'' (baseURL c @ ''/api/v2/token'') of
        Some e \<Rightarrow> (Inl (''build token request: '' @ e), c, [])
      | None \<Rightarrow>
          (let req = token_request c
           in case Do w req of
                Inl e \<Rightarrow> (Inl (''token request: '' @ e), c, [req])
              | Inr resp \<Rightarrow>
                  if StatusCode resp \<noteq> StatusOK then
                    (Inl (''token request failed ('' @ itoa (int (StatusCode resp)) @ ''): '' @ resp_Body resp),
                     c, [req])
                  else
                    (case decode_token w (resp_Body resp) of
                       Inl e \<Rightarrow> (Inl (''decode token: '' @ e), c, [req])
                     | Inr (accessToken, expiresAt) \<Rightarrow>
                         (let c' = c\<lparr>token := accessToken, tokenExp := expiresAt + (- 30) * Second\<rparr>
                          in (Inr (token c'), c', [req])))))"

definition doAuth ::
  "world \<Rightarrow> SFTPGoClient \<Rightarrow> http_request \<Rightarrow> (error + http_response) \<times> SFTPGoClient \<times> http_request list" where
  "doAuth w c req =
     (case getToken w c of
        (Inl err, c', sent) \<Rightarrow> (Inl err, c', sent)
      | (Inr tok, c', sent) \<Rightarrow>
          (let req' = req\<lparr>rq_auth := Bearer tok\<rparr>
           in (Do w req', c', sent @ [req'])))"

record S3Config =
  Bucket :: string
  Region :: string
  Endpoint :: string
  AccessKey :: string
  SecretKey :: string

definition create_user_payload ::
  "string \<Rightarrow> string \<Rightarrow> string \<Rightarrow> string list \<Rightarrow> S3Config option \<Rightarrow> string \<Rightarrow> json" where
  "create_user_payload username password homeDir publicKeys s3 tenantID =
     JObj ([(''username'', JStr username),
            (''password'', JStr password),
            (''status'', JNum 1),
            (''home_dir'', JStr homeDir),
            (''permissions'', JObj [(''/'', JArr [JStr ''*''])])]
           @ (if length publicKeys > 0 then [(''public_keys'', JArr (map JStr publicKeys))] else [])
           @ (case s3 of
                None \<Rightarrow> []
              | Some s \<Rightarrow> [(''filesystem'', s3config_json (Bucket s) (Region s) (Endpoint s)
                                (AccessKey s) (SecretKey s) tenantID)]))"

definition CreateUser ::
  "world \<Rightarrow> SFTPGoClient \<Rightarrow> string \<Rightarrow> string \<Rightarrow> string \<Rightarrow> string list \<Rightarrow> S3Config option \<Rightarrow> string
     \<Rightarrow> error option \<times> SFTPGoClient \<times> http_request list" where
  "CreateUser w c username password homeDir publicKeys s3 tenantID =
     (let payload = create_user_payload username password homeDir publicKeys s3 tenantID
      in case NewRequest_err w ''POST'' (baseURL c @ ''/api/v2/users'') of
           Some e \<Rightarrow> (Some (''build create user request: '' @ e), c, [])
         | None \<Rightarrow>
             (case doAuth w c \<lparr>rq_method = ''POST'', rq_url = baseURL c @ ''/api/v2/users'',
                                rq_auth = NoAuth, rq_body = Some payload\<rparr> of
                (Inl err, c', sent) \<Rightarrow> (Some err, c', sent)
              | (Inr resp, c', sent) \<Rightarrow>
                  if StatusCode resp \<noteq> StatusCreated then
                    (Some (''sftpgo create user ('' @ itoa (int (StatusCode resp)) @ ''): '' @ resp_Body resp),
                     c', sent)
                  else (None, c', sent)))"

definition DeleteUser ::
  "world \<Rightarrow> SFTPGoClient \<Rightarrow> string \<Rightarrow> error option \<times> SFTPGoClient \<times> http_request list" where
  "DeleteUser w c username =
     (case NewRequest_err w ''DELETE'' (baseURL c @ ''/api/v2/users/'' @ username) of
        Some e \<Rightarrow> (Some (''build delete user request: '' @ e), c, [])
      | None \<Rightarrow>
          (case doAuth w c \<lparr>rq_method = ''DELETE'', rq_url = baseURL c @ ''/api/v2/users/'' @ username,
                             rq_auth = NoAuth, rq_body = None\<rparr> of
             (Inl err, c', sent) \<Rightarrow> (Some err, c', sent)
           | (Inr resp, c', sent) \<Rightarrow>
               if StatusCode resp \<noteq> StatusOK then
                 (Some (''sftpgo delete user ('' @ itoa (int (StatusCode resp)) @ ''): '' @ resp_Body resp),
                  c', sent)
               else (None, c', sent)))"

text \<open>
  The reuse condition in the words of the specification: a token is cached, and the
  current time is earlier than 30 seconds before the expiry the server reported for it.
\<close>

definition spec_token_fresh :: "string \<Rightarrow> int \<Rightarrow> int \<Rightarrow> bool" where
  "spec_token_fresh cached reportedExpiry now = (cached \<noteq> [] \<and> now < reportedExpiry - 30 * Second)"

section \<open>Provisioning handlers\<close>

text \<open>\<open>parseID\<close>: the first segment of the path after the prefix, as an integer.\<close>

definition parseID :: "string \<Rightarrow> string \<Rightarrow> error + int" where
  "parseID path prefix =
     (let s = TrimPrefix path prefix;
          s = takeWhile (\<lambda>c. c \<noteq> CHR ''/'') s
      in ParseInt s)"

record 'v Handlers =
  h_db :: "'v DB"
  h_sftpgo :: SFTPGoClient
  h_cfg :: Config

record create_request =
  cr_Username :: string
  cr_Password :: string
  cr_PublicKey :: string

text \<open>The JSON form of a tenant; \<open>public_key\<close> is omitted when empty.\<close>

definition tenant_json :: "Tenant \<Rightarrow> json" where
  "tenant_json t =
     JObj ([(''id'', JNum (ID t)), (''tenant_id'', JStr (TenantID t)),
            (''username'', JStr (Username t)), (''password'', JStr (Password t))]
           @ (if PublicKey t \<noteq> [] then [(''public_key'', JStr (PublicKey t))] else [])
           @ [(''home_dir'', JStr (HomeDir t)), (''created_at'', JNum (CreatedAt t))])"

text \<open>The password of the new tenant: the one of the request, or 16 random bytes in hex.\<close>

definition create_password :: "world \<Rightarrow> create_request \<Rightarrow> error + string" where
  "create_password w req =
     (if cr_Password req = [] then
        (case rand_password w of
           Inl err \<Rightarrow> Inl (''generate password: '' @ err)
         | Inr b \<Rightarrow> Inr (hex_EncodeToString b))
      else Inr (cr_Password req))"

definition pub_keys :: "create_request \<Rightarrow> string list" where
  "pub_keys req = (if cr_PublicKey req \<noteq> [] then [cr_PublicKey req] else [])"

definition s3_of_cfg :: "Config \<Rightarrow> S3Config option" where
  "s3_of_cfg c =
     (if S3Endpoint c \<noteq> [] then
        Some \<lparr>Bucket = S3Bucket c, Region = S3Region c, Endpoint = S3Endpoint c,
              AccessKey = S3AccessKey c, SecretKey = S3SecretKey c\<rparr>
      else None)"

text \<open>
  \<open>Handlers.CreateTenant\<close>. \<open>reqBody\<close> is the decoded request body (\<open>None\<close>: the decoder
  failed). The result is the response, the handler's registry and client after the call,
  and the requests sent to the external server.
\<close>

definition Handlers_CreateTenant ::
  "world \<Rightarrow> 'v Handlers \<Rightarrow> string \<Rightarrow> create_request option \<Rightarrow> response \<times> 'v Handlers \<times> http_request list" where
  \<open>Handlers_CreateTenant w h rMethod reqBody =
     (if rMethod \<noteq> ''POST'' then
        (http_Error ''{"error":"method not allowed"}'' StatusMethodNotAllowed, h, [])
      else case reqBody of
        None \<Rightarrow> (http_Error ''{"error":"username is required"}'' StatusBadRequest, h, [])
      | Some req \<Rightarrow>
          if cr_Username req = [] then
            (http_Error ''{"error":"username is required"}'' StatusBadRequest, h, [])
          else
            (case create_password w req of
               Inl err \<Rightarrow> (writeError StatusInternalServerError err, h, [])
             | Inr password \<Rightarrow>
                 (case rand_tenant_id w of
                    Inl err \<Rightarrow> (writeError StatusInternalServerError (''generate tenant_id: '' @ err), h, [])
                  | Inr tidBytes \<Rightarrow>
                      (let tenantID = hex_EncodeToString tidBytes;
                           homeDir = filepath_Join w (DataDir (h_cfg h)) tenantID;
                           pubKeys = pub_keys req;
                           s3Cfg = s3_of_cfg (h_cfg h)
                       in case CreateUser w (h_sftpgo h) (cr_Username req) password homeDir pubKeys s3Cfg tenantID of
                            (Some err, c', sent) \<Rightarrow>
                              (writeError StatusBadGateway err, h\<lparr>h_sftpgo := c'\<rparr>, sent)
                          | (None, c', sent) \<Rightarrow>
                              (case CreateTenant (h_db h) (Now w) tenantID (cr_Username req) password
                                      (cr_PublicKey req) homeDir of
                                 (Inl err, db') \<Rightarrow>
                                   (writeError StatusInternalServerError err, h\<lparr>h_db := db', h_sftpgo := c'\<rparr>, sent)
                               | (Inr tenant, db') \<Rightarrow>
                                   (writeJSON StatusCreated
                                      (JObj [(''tenant'', tenant_json tenant),
                                             (''password'', JStr password),
                                             (''tenant_id'', JStr tenantID)]),
                                    h\<lparr>h_db := db', h_sftpgo := c'\<rparr>, sent))))))\<close>

text \<open>\<open>Handlers.DeleteTenant\<close>, on the method and the path of the request.\<close>

definition Handlers_DeleteTenant ::
  "world \<Rightarrow> 'v Handlers \<Rightarrow> string \<Rightarrow> string \<Rightarrow> response \<times> 'v Handlers \<times> http_request list" where
  \<open>Handlers_DeleteTenant w h rMethod path =
     (if rMethod \<noteq> ''DELETE'' then
        (http_Error ''{"error":"method not allowed"}'' StatusMethodNotAllowed, h, [])
      else case parseID path ''/api/tenants/'' of
        Inl err \<Rightarrow> (http_Error ''{"error":"invalid id"}'' StatusBadRequest, h, [])
      | Inr i \<Rightarrow>
          (case DeleteTenant (h_db h) i of
             (Inl err, db') \<Rightarrow> (http_Error ''{"error":"tenant not found"}'' StatusNotFound, h\<lparr>h_db := db'\<rparr>, [])
           | (Inr username, db') \<Rightarrow>
               (case DeleteUser w (h_sftpgo h) username of
                  (Some err, c', sent) \<Rightarrow>
                    (writeError StatusBadGateway (''deleted from db but sftpgo failed: '' @ err),
                     h\<lparr>h_db := db', h_sftpgo := c'\<rparr>, sent)
                | (None, c', sent) \<Rightarrow>
                    (writeJSON StatusOK (JObj [(''status'', JStr ''deleted'')]),
                     h\<lparr>h_db := db', h_sftpgo := c'\<rparr>, sent))))\<close>

section \<open>Ingestion worker\<close>

text \<open>
  The object of an upload, as \<open>csv.NewReader\<close> delivers it: the sequence of its records,
  each a list of fields or a parse error. \<open>Read\<close> has the default \<open>FieldsPerRecord = 0\<close>:
  the first record fixes the number of fields, and a later record with another number of
  fields is returned with \<open>ErrFieldCount\<close>.
\<close>

datatype csv_item = Line "string list" | Bad error

record csv_reader =
  pending :: "csv_item list"
  FieldsPerRecord :: int

datatype read_result = EOF | ReadError error | Row "string list"

definition NewReader :: "csv_item list \<Rightarrow> csv_reader" where
  "NewReader items = \<lparr>pending = items, FieldsPerRecord = 0\<rparr>"

definition ErrFieldCount :: error where
  "ErrFieldCount = ''wrong number of fields''"

definition csv_Read :: "csv_reader \<Rightarrow> read_result \<times> csv_reader" where
  "csv_Read r =
     (case pending r of
        [] \<Rightarrow> (EOF, r)
      | Bad e # rest \<Rightarrow> (ReadError e, r\<lparr>pending := rest\<rparr>)
      | Line fs # rest \<Rightarrow>
          if FieldsPerRecord r > 0 then
            (if int (length fs) \<noteq> FieldsPerRecord r then (ReadError ErrFieldCount, r\<lparr>pending := rest\<rparr>)
             else (Row fs, r\<lparr>pending := rest\<rparr>))
          else if FieldsPerRecord r = 0 then
            (Row fs, r\<lparr>pending := rest, FieldsPerRecord := int (length fs)\<rparr>)
          else (Row fs, r\<lparr>pending := rest\<rparr>))"

text \<open>
  What the worker obtains from outside: the object store (\<open>GetObject\<close> read through the
  CSV reader), \<open>strconv.ParseFloat\<close>, the lowering of strings that are not ASCII
  (\<open>Map_ToLower\<close>, see \<open>ToLower\<close>), the clock, and for the \<open>n\<close>-th data row of the
  file the error, if any, with which the storage engine refuses the upsert.
\<close>

record 'v ingest_env =
  GetObject :: "string \<Rightarrow> string \<Rightarrow> error + csv_item list"
  ParseFloat :: "string \<Rightarrow> error + 'v"
  Map_ToLower :: "string \<Rightarrow> string"
  exec_fault :: "nat \<Rightarrow> error option"
  Clock :: int

record Worker =
  bucket :: string

text \<open>How a run of the worker ends: abandoned before any row, stopped by a read error
  after some rows, finished with the number of rows upserted, or a run-time panic on an
  index out of range.\<close>

datatype outcome = Abandoned string | Stopped string nat | Processed nat | Panicked

definition event_string :: "(string \<rightharpoonup> json) \<Rightarrow> string \<Rightarrow> string" where
  "event_string event k = (case event k of Some (JStr s) \<Rightarrow> s | _ \<Rightarrow> [])"

text \<open>\<open>colIndex\<close>: column name to index, a later column of the same name wins.\<close>

definition build_colIndex :: "(string \<Rightarrow> string) \<Rightarrow> string list \<Rightarrow> (string \<rightharpoonup> nat)" where
  "build_colIndex mapLower header =
     fold (\<lambda>(i, h) m. m(TrimSpace (ToLower mapLower h) \<mapsto> i)) (zip [0..<length header] header) Map.empty"

text \<open>Reading a map at a missing key gives the zero value.\<close>

definition lookup0 :: "(string \<rightharpoonup> nat) \<Rightarrow> string \<Rightarrow> nat" where
  "lookup0 m k = (case m k of Some i \<Rightarrow> i | None \<Rightarrow> 0)"

definition getField :: "string list \<Rightarrow> nat \<Rightarrow> string option" where
  "getField row i = (if i < length row then Some (row ! i) else None)"

definition optField :: "(string \<rightharpoonup> nat) \<Rightarrow> string list \<Rightarrow> string \<Rightarrow> string option" where
  "optField colIndex row name =
     (case colIndex name of Some idx \<Rightarrow> getField row idx | None \<Rightarrow> Some [])"

text \<open>
  The fields of one data row: record key, title, description, category and the text of
  the value, trimmed. \<open>None\<close> stands for the panic of an index out of range.
\<close>

definition row_fields ::
  "(string \<rightharpoonup> nat) \<Rightarrow> string list \<Rightarrow> (string \<times> string \<times> string \<times> string \<times> string) option" where
  "row_fields colIndex row =
     (case getField row (lookup0 colIndex ''key'') of None \<Rightarrow> None | Some k \<Rightarrow>
      case getField row (lookup0 colIndex ''title'') of None \<Rightarrow> None | Some t \<Rightarrow>
      case optField colIndex row ''description'' of None \<Rightarrow> None | Some d \<Rightarrow>
      case optField colIndex row ''category'' of None \<Rightarrow> None | Some c \<Rightarrow>
      case getField row (lookup0 colIndex ''value'') of None \<Rightarrow> None | Some v \<Rightarrow>
        Some (TrimSpace k, TrimSpace t, TrimSpace d, TrimSpace c, TrimSpace v))"

text \<open>One turn of the loop on a row that was read: the registry and the count after it.\<close>

definition ingest_row ::
  "'v ingest_env \<Rightarrow> string \<Rightarrow> nat \<Rightarrow> (string \<times> string \<times> string \<times> string \<times> string) \<Rightarrow> 'v DB \<Rightarrow> nat \<Rightarrow> 'v DB \<times> nat" where
  "ingest_row env tenantID n f db count =
     (case f of (recordKey, title, description, category, raw) \<Rightarrow>
        (case ParseFloat env raw of
           Inl err \<Rightarrow> (db, count)
         | Inr val \<Rightarrow>
             (case UpsertRecord db (Clock env) (exec_fault env n) tenantID recordKey title description category val of
                (Some err, db') \<Rightarrow> (db', count)
              | (None, db') \<Rightarrow> (db', count + 1))))"

function process_rows ::
  "'v ingest_env \<Rightarrow> (string \<rightharpoonup> nat) \<Rightarrow> string \<Rightarrow> csv_reader \<Rightarrow> nat \<Rightarrow> 'v DB \<Rightarrow> nat \<Rightarrow> outcome \<times> 'v DB" where
  "process_rows env colIndex tenantID reader n db count =
     (case csv_Read reader of
        (EOF, reader') \<Rightarrow> (Processed count, db)
      | (ReadError err, reader') \<Rightarrow> (Stopped (''CSV read error: '' @ err) count, db)
      | (Row row, reader') \<Rightarrow>
          (case row_fields colIndex row of
             None \<Rightarrow> (Panicked, db)
           | Some f \<Rightarrow>
               (case ingest_row env tenantID n f db count of
                  (db', count') \<Rightarrow> process_rows env colIndex tenantID reader' (Suc n) db' count')))"
  by pat_completeness auto
termination
  by (relation "measure (\<lambda>(env, colIndex, tenantID, reader, n, db, count). length (pending reader))")
     (auto simp: csv_Read_def split: list.splits csv_item.splits if_splits)
declare process_rows.simps [simp del]

definition ProcessUploadEvent ::
  "'v ingest_env \<Rightarrow> Worker \<Rightarrow> 'v DB \<Rightarrow> (string \<rightharpoonup> json) \<Rightarrow> outcome \<times> 'v DB" where
  "ProcessUploadEvent env wk db event =
     (let username = event_string event ''username'';
          virtualPath = event_string event ''virtual_path''
      in if username = [] \<or> virtualPath = [] then
           (Abandoned ''missing username or virtual_path in event'', db)
         else if \<not> HasSuffix (ToLower (Map_ToLower env) virtualPath) ''.csv'' then
           (Abandoned (''skipping non-CSV file '' @ virtualPath), db)
         else
           (case GetTenantByUsername db username of
              Inl err \<Rightarrow> (Abandoned (''tenant '' @ username @ '' not found: '' @ err), db)
            | Inr tenant \<Rightarrow>
                (let objectKey = TenantID tenant @ ''/'' @ TrimPrefix virtualPath ''/''
                 in case GetObject env (bucket wk) objectKey of
                      Inl err \<Rightarrow> (Abandoned (''failed to get object '' @ objectKey @ '': '' @ err), db)
                    | Inr items \<Rightarrow>
                        (case csv_Read (NewReader items) of
                           (EOF, reader) \<Rightarrow> (Abandoned (''failed to read CSV header: '' @ ''EOF''), db)
                         | (ReadError err, reader) \<Rightarrow> (Abandoned (''failed to read CSV header: '' @ err), db)
                         | (Row header, reader) \<Rightarrow>
                             (let colIndex = build_colIndex (Map_ToLower env) header
                              in case find (\<lambda>required. colIndex required = None) [''key'', ''title'', ''value''] of
                                   Some required \<Rightarrow>
                                     (Abandoned (''CSV missing required column: '' @ required), db)
                                 | None \<Rightarrow> process_rows env colIndex (TenantID tenant) reader 0 db 0)))))"

text \<open>
  A data row is upserted when its fields can be read, its value parses and the storage
  engine accepts the statement; \<open>count_ok\<close> counts such rows, the first row being the
  \<open>n\<close>-th of the file.
\<close>

definition row_ok :: "'v ingest_env \<Rightarrow> (string \<rightharpoonup> nat) \<Rightarrow> nat \<Rightarrow> string list \<Rightarrow> bool" where
  "row_ok env colIndex n row =
     (case row_fields colIndex row of
        None \<Rightarrow> False
      | Some (recordKey, title, description, category, raw) \<Rightarrow>
          (case ParseFloat env raw of Inl err \<Rightarrow> False | Inr val \<Rightarrow> exec_fault env n = None))"

fun count_ok :: "'v ingest_env \<Rightarrow> (string \<rightharpoonup> nat) \<Rightarrow> nat \<Rightarrow> string list list \<Rightarrow> nat" where
  "count_ok env colIndex n [] = 0"
| "count_ok env colIndex n (row # rows) =
     (if row_ok env colIndex n row then 1 else 0) + count_ok env colIndex (Suc n) rows"

definition row_key :: "(string \<rightharpoonup> nat) \<Rightarrow> string list \<Rightarrow> string" where
  "row_key colIndex row = (case row_fields colIndex row of Some f \<Rightarrow> fst f | None \<Rightarrow> [])"

definition has_key :: "'v DB \<Rightarrow> string \<Rightarrow> string \<Rightarrow> bool" where
  "has_key db tenantID recordKey = (\<exists>r \<in> set (records db). same_key tenantID recordKey r)"

section \<open>Example inputs\<close>

definition example_cfg :: Config where
  "example_cfg = \<lparr>SFTPGoURL = ''http://localhost:8080'', AdminUser = ''admin'', AdminPass = ''admin'',
     ListenAddr = '':9090'', DataDir = ''/tmp/test'', S3Bucket = ''sftpgo'', S3Region = ''us-east-1'',
     S3Endpoint = [], S3AccessKey = [], S3SecretKey = [], S3UseSSL = False\<rparr>"

definition example_tenant :: Tenant where
  "example_tenant = \<lparr>ID = 1, TenantID = ''tid1'', Username = ''testuser'', Password = [],
     PublicKey = ''ssh-ed25519 AAAAC3NzaC1lZDI1NTE5AAAAITestKey user@host'', HomeDir = ''/data/tid1'',
     CreatedAt = 0\<rparr>"

definition example_db :: "int DB" where
  "example_db = \<lparr>tenants = [example_tenant], records = []\<rparr>"

definition example_req :: auth_request where
  "example_req = \<lparr>req_Username = ''testuser'', req_Password = [],
     req_PublicKey = ''ssh-ed25519 AAAAC3NzaC1lZDI1NTE5AAAAITestKey'', req_Protocol = ''SSH'',
     req_IP = ''127.0.0.1''\<rparr>"

definition bare_tenant :: Tenant where
  "bare_tenant = \<lparr>ID = 1, TenantID = ''tid9'', Username = ''bare'', Password = [],
     PublicKey = [], HomeDir = ''/data/tid9'', CreatedAt = 0\<rparr>"

definition bare_db :: "int DB" where
  "bare_db = \<lparr>tenants = [bare_tenant], records = []\<rparr>"

definition bare_req :: auth_request where
  "bare_req = \<lparr>req_Username = ''bare'', req_Password = [],
     req_PublicKey = ''ssh-ed25519 AAAA'', req_Protocol = ''SSH'', req_IP = ''127.0.0.1''\<rparr>"

definition unknown_req :: auth_request where
  "unknown_req = \<lparr>req_Username = ''nobody'', req_Password = ''pass'',
     req_PublicKey = [], req_Protocol = ''SSH'', req_IP = ''127.0.0.1''\<rparr>"

definition wrong_req :: auth_request where
  "wrong_req = \<lparr>req_Username = ''testuser'', req_Password = ''wrong'',
     req_PublicKey = ''ssh-ed25519 BBBB'', req_Protocol = ''SSH'', req_IP = ''127.0.0.1''\<rparr>"

definition dup_ops :: "tenant_op list" where
  "dup_ops = [OpCreate 0 ''tid1'' ''sameuser'' ''p1'' [] ''/d/1'']"

definition example_client :: SFTPGoClient where
  "example_client = NewSFTPGoClient ''http://localhost:8080'' ''admin'' ''admin''"

definition example_world :: world where
  "example_world =
     \<lparr>Now = 100 * Second,
      NewRequest_err = (\<lambda>m u. None),
      Do = (\<lambda>req. if rq_url req = ''http://localhost:8080/api/v2/token''
                    then Inr \<lparr>StatusCode = 200, resp_Body = ''token-document''\<rparr>
                    else if rq_method req = ''POST'' then Inr \<lparr>StatusCode = 201, resp_Body = []\<rparr>
                    else Inr \<lparr>StatusCode = 500, resp_Body = ''boom''\<rparr>),
      decode_token = (\<lambda>b. Inr (''abc'', 1000 * Second)),
      rand_password = Inr ''0123456789abcdef'',
      rand_tenant_id = Inr ''fedcba9876543210'',
      filepath_Join = (\<lambda>a b. a @ ''/'' @ b)\<rparr>"

definition example_handlers :: "int Handlers" where
  "example_handlers = \<lparr>h_db = example_db, h_sftpgo = example_client, h_cfg = example_cfg\<rparr>"

definition down_world :: world where
  "down_world = example_world\<lparr>Do := (\<lambda>req. Inl ''connection refused'')\<rparr>"

definition example_create :: create_request where
  "example_create = \<lparr>cr_Username = ''testuser'', cr_Password = ''secret123'', cr_PublicKey = []\<rparr>"

definition example_event :: "string \<rightharpoonup> json" where
  "example_event = [''action'' \<mapsto> JStr ''upload'', ''username'' \<mapsto> JStr ''testuser'',
                    ''virtual_path'' \<mapsto> JStr ''/Data.CSV'']"

text \<open>A toy \<open>ParseFloat\<close> for the examples: it accepts unsigned decimal integers only.\<close>

definition digits_only :: "string \<Rightarrow> error + int" where
  "digits_only s = (if s \<noteq> [] \<and> list_all is_digit s then ParseInt s else Inl ''invalid syntax'')"

definition example_env :: "csv_item list \<Rightarrow> int ingest_env" where
  "example_env items =
     \<lparr>GetObject = (\<lambda>b k. if b = ''sftpgo'' \<and> k = ''tid1/Data.CSV'' then Inr items else Inl ''NoSuchKey''),
      ParseFloat = digits_only,
      Map_ToLower = (\<lambda>s. s),
      exec_fault = (\<lambda>n. if n = 2 then Some ''database is locked'' else None),
      Clock = 7\<rparr>"

definition example_worker :: Worker where
  "example_worker = \<lparr>bucket = ''sftpgo''\<rparr>"

definition good_file :: "csv_item list" where
  "good_file = [Line ['' Key '', ''Title'', ''Value''],
                Line [''k1'', ''first'', ''10''],
                Line [''k2'', ''second'', ''abc''],
                Line [''k3'', ''third'', ''30''],
                Line [''k4'', ''fourth'', '' 40 '']]"

definition good_header :: "string list" where
  "good_header = ['' Key '', ''Title'', ''Value'']"

definition good_rows :: "string list list" where
  "good_rows = [[''k1'', ''first'', ''10''], [''k2'', ''second'', ''abc''],
                [''k3'', ''third'', ''30''], [''k4'', ''fourth'', '' 40 '']]"

definition short_row_file :: "csv_item list" where
  "short_row_file = [Line ['' Key '', ''Title'', ''Value''],
                     Line [''k0'', ''zeroth'', ''abc''],
                     Line [''k2''],
                     Line [''k1'', ''first'', ''10'']]"

definition quiet_env :: "csv_item list \<Rightarrow> int ingest_env" where
  "quiet_env items = (example_env items)\<lparr>exec_fault := (\<lambda>n. None)\<rparr>"

definition no_value_file :: "csv_item list" where
  "no_value_file = [Line [''key'', ''title'', ''amount''], Line [''k1'', ''first'', ''10'']]"

section \<open>Properties of the string functions\<close>

lemma enc_shape_all:
  "list_all (\<lambda>e. e \<noteq> [] \<and> \<not> cont_byte (hd e) \<and> list_all cont_byte (tl e)) space_encodings"
  by code_simp

lemma enc_shape:
  "e \<in> set space_encodings \<Longrightarrow> e \<noteq> [] \<and> \<not> cont_byte (hd e) \<and> (\<forall>b \<in> set (tl e). cont_byte b)"
  using enc_shape_all by (simp add: list_all_iff)

lemma width_self_all:
  "list_all (\<lambda>e. width_of space_encodings e = length e) space_encodings"
  by code_simp

lemma width_self:
  "e \<in> set space_encodings \<Longrightarrow> width_of space_encodings e = length e"
  using width_self_all by (simp add: list_all_iff)

lemma width_of_pos:
  assumes "width_of encs s \<noteq> 0"
  shows "\<exists>e \<in> set encs. length e = width_of encs s \<and> take (width_of encs s) s = e"
proof (cases "find (\<lambda>e. take (length e) s = e) encs")
  case None
  with assms show ?thesis by (simp add: width_of_def)
next
  case (Some e)
  then have "e \<in> set encs" "take (length e) s = e"
    by (auto simp: find_Some_iff)
  with Some show ?thesis by (simp add: width_of_def)
qed

lemma width_of_le: "width_of encs s \<le> length s"
proof (cases "width_of encs s = 0")
  case True
  then show ?thesis by simp
next
  case False
  from width_of_pos [OF this] obtain e where "length e = width_of encs s" "take (width_of encs s) s = e"
    by blast
  then have "length (take (width_of encs s) s) = width_of encs s" by simp
  then show ?thesis by simp
qed

lemma width_of_cong:
  "(\<And>e. e \<in> set encs \<Longrightarrow> (take (length e) s = e) = (take (length e) t = e)) \<Longrightarrow>
   width_of encs s = width_of encs t"
  unfolding width_of_def by (induction encs) auto

lemma prefix_within:
  assumes e: "e \<in> set space_encodings" and t: "t \<noteq> []" and u: "u = [] \<or> \<not> cont_byte (hd u)"
  shows "(take (length e) (t @ u) = e) = (take (length e) t = e)"
proof (cases "length e \<le> length t")
  case True
  then show ?thesis by simp
next
  case False
  then have lt: "length t < length e" by simp
  have rhs: "take (length e) t \<noteq> e"
  proof
    assume a: "take (length e) t = e"
    have "length (take (length e) t) \<le> length t" by simp
    with a lt show False by simp
  qed
  have lhs: "take (length e) (t @ u) \<noteq> e"
  proof
    assume eq: "take (length e) (t @ u) = e"
    have "length (take (length e) (t @ u)) \<le> length (t @ u)" by simp
    with eq have len: "length e \<le> length t + length u" by simp
    with lt have ne: "u \<noteq> []" by auto
    with u have nc: "\<not> cont_byte (hd u)" by simp
    have "take (length e) (t @ u) ! length t = (t @ u) ! length t"
      using lt by (rule nth_take)
    with eq have "e ! length t = (t @ u) ! length t" by simp
    also have "\<dots> = hd u" using ne by (simp add: nth_append hd_conv_nth)
    finally have at: "e ! length t = hd u" .
    from t obtain n where n: "length t = Suc n" by (cases t) auto
    with lt have "n < length (tl e)" by simp
    then have "tl e ! n \<in> set (tl e)" by (rule nth_mem)
    moreover have "tl e ! n = e ! Suc n"
      using \<open>n < length (tl e)\<close> by (simp add: nth_tl)
    ultimately have "hd u \<in> set (tl e)" using at n by simp
    with enc_shape [OF e] have "cont_byte (hd u)" by blast
    with nc show False by simp
  qed
  from lhs rhs show ?thesis by simp
qed

lemma width_append:
  "t \<noteq> [] \<Longrightarrow> u = [] \<or> \<not> cont_byte (hd u) \<Longrightarrow>
   width_of space_encodings (t @ u) = width_of space_encodings t"
  by (rule width_of_cong) (rule prefix_within)

lemma fieldsFrom_append_enc:
  "e \<in> set space_encodings \<Longrightarrow> fieldsFrom cur (t @ e) = fieldsFrom cur t"
proof (induction cur t rule: fieldsFrom.induct)
  case (1 cur)
  from enc_shape [OF 1] obtain c cs where e: "e = c # cs" by (cases e) auto
  have w: "width_of space_encodings (c # cs) = length (c # cs)"
    using width_self [OF 1] by (simp add: e)
  show ?case by (simp add: e w del: width_of_def)
next
  case (2 cur c cs)
  from enc_shape [OF "2.prems"] have u: "e = [] \<or> \<not> cont_byte (hd e)" by simp
  have w: "width_of space_encodings (c # cs @ e) = width_of space_encodings (c # cs)"
    using width_append [of "c # cs" e] u by simp
  have le: "width_of space_encodings (c # cs) \<le> length (c # cs)" by (rule width_of_le)
  show ?case
  proof (cases "width_of space_encodings (c # cs) = 0")
    case True
    with w "2.IH"(1) "2.prems" show ?thesis by simp
  next
    case False
    have "drop (width_of space_encodings (c # cs)) ((c # cs) @ e)
               = drop (width_of space_encodings (c # cs)) (c # cs)
                 @ drop (width_of space_encodings (c # cs) - length (c # cs)) e"
      by (rule drop_append)
    moreover have "width_of space_encodings (c # cs) - length (c # cs) = 0"
      using le by simp
    ultimately have "drop (width_of space_encodings (c # cs)) ((c # cs) @ e)
               = drop (width_of space_encodings (c # cs)) (c # cs) @ e"
      by (simp only: drop0)
    then have d: "drop (width_of space_encodings (c # cs)) (c # cs @ e)
               = drop (width_of space_encodings (c # cs)) (c # cs) @ e"
      by (simp only: append_Cons)
    from False w d "2.IH"(2,3) "2.prems" show ?thesis by simp
  qed
qed

lemma fieldsFrom_strip_right:
  "fieldsFrom cur (rev (strip (map rev space_encodings) r)) = fieldsFrom cur (rev r)"
proof (induction "map rev space_encodings" r rule: strip.induct)
  case 1
  show ?case by simp
next
  case (2 c cs)
  let ?w = "width_of (map rev space_encodings) (c # cs)"
  show ?case
  proof (cases "?w = 0")
    case True
    then show ?thesis by simp
  next
    case False
    from width_of_pos [OF False] obtain e' where
      e': "e' \<in> set (map rev space_encodings)" "take ?w (c # cs) = e'"
      by blast
    then obtain e where e: "e \<in> set space_encodings" "e' = rev e" by auto
    have "rev (c # cs) = rev (drop ?w (c # cs)) @ rev (take ?w (c # cs))"
      by (metis append_take_drop_id rev_append)
    then have split: "rev (c # cs) = rev (drop ?w (c # cs)) @ e"
      using e' e by simp
    have "fieldsFrom cur (rev (strip (map rev space_encodings) (c # cs)))
            = fieldsFrom cur (rev (strip (map rev space_encodings) (drop ?w (c # cs))))"
      using False by simp
    also have "\<dots> = fieldsFrom cur (rev (drop ?w (c # cs)))"
      using "2.hyps" False by simp
    also have "\<dots> = fieldsFrom cur (rev (drop ?w (c # cs)) @ e)"
      using fieldsFrom_append_enc [OF e(1)] by simp
    finally show ?thesis by (simp only: split)
  qed
qed

lemma fieldsFrom_strip_left:
  "fieldsFrom [] (strip space_encodings s) = fieldsFrom [] s"
proof (induction space_encodings s rule: strip.induct)
  case 1
  show ?case by simp
next
  case (2 c cs)
  then show ?case by (cases "width_of space_encodings (c # cs) = 0") simp_all
qed

lemma Fields_TrimSpace: "Fields (TrimSpace s) = Fields s"
  by (simp add: Fields_def TrimSpace_def TrimRight_def TrimLeft_def
      fieldsFrom_strip_right fieldsFrom_strip_left)

text \<open>White space that is not ASCII separates fields and is trimmed: U+00A0 and U+3000.\<close>

lemma Fields_no_break_space:
  "Fields (''ssh-ed25519'' @ [CHR 0xC2, CHR 0xA0] @ ''AAAAKEY'') = [''ssh-ed25519'', ''AAAAKEY'']"
  by code_simp

lemma TrimSpace_no_break_space:
  "TrimSpace ([CHR 0xC2, CHR 0xA0] @ ''key'' @ [CHR 0xE3, CHR 0x80, CHR 0x80, CHR 0x20]) = ''key''"
  by code_simp

text \<open>A byte that only resembles an encoding (a lone continuation byte) is kept.\<close>

lemma TrimSpace_keeps_stray_bytes:
  "TrimSpace ([CHR 0xA0] @ ''key'' @ [CHR 0x80, CHR 0x80]) = [CHR 0xA0] @ ''key'' @ [CHR 0x80, CHR 0x80]"
  by code_simp

section \<open>Properties of the authentication hook\<close>

lemma pubkey_step_spec: "pubkey_step req tenant False = spec_pubkey_match req tenant"
  by (simp add: pubkey_step_def spec_pubkey_match_def Fields_TrimSpace Let_def)

lemma password_step_spec:
  "password_step req tenant a = (a \<or> spec_password_match req tenant)"
  by (auto simp: password_step_def spec_password_match_def)

text \<open>
  Claim C1. For a POST to the authentication hook whose username resolves to a registered
  tenant, the handler answers with the user descriptor exactly when (a) both public keys
  are supplied, both split on white space into at least two fields and the second fields
  are equal, or (b) the public-key check did not authenticate and the two passwords are
  non-empty and equal; otherwise it answers forbidden. The value of \<open>authenticated\<close>
  after the two steps, public key first and password second, is that condition.
\<close>

theorem auth_hook_authenticates_iff:
  assumes "GetTenantByUsername db (req_Username req) = Inr tenant"
  shows "ExternalAuthHook cfg db ''POST'' (Some req) =
           (if spec_pubkey_match req tenant \<or>
               (\<not> spec_pubkey_match req tenant \<and> spec_password_match req tenant)
            then writeJSON StatusOK (sftpgoUser cfg tenant)
            else http_Error [] StatusForbidden)
         \<and> (status (ExternalAuthHook cfg db ''POST'' (Some req)) = StatusOK \<longleftrightarrow>
              spec_pubkey_match req tenant \<or>
              (\<not> spec_pubkey_match req tenant \<and> spec_password_match req tenant))
         \<and> password_step req tenant (pubkey_step req tenant False) =
             (spec_pubkey_match req tenant \<or>
              (\<not> spec_pubkey_match req tenant \<and> spec_password_match req tenant))"
proof -
  let ?A = "spec_pubkey_match req tenant \<or>
            (\<not> spec_pubkey_match req tenant \<and> spec_password_match req tenant)"
  have auth: "password_step req tenant (pubkey_step req tenant False) = ?A"
    by (auto simp: pubkey_step_spec password_step_spec)
  have resp: "ExternalAuthHook cfg db ''POST'' (Some req) =
           (if ?A then writeJSON StatusOK (sftpgoUser cfg tenant)
            else http_Error [] StatusForbidden)"
    using assms auth by (simp add: ExternalAuthHook_def Let_def)
  have st: "status (ExternalAuthHook cfg db ''POST'' (Some req)) = StatusOK \<longleftrightarrow> ?A"
    unfolding resp by (auto simp: writeJSON_def http_Error_def StatusOK_def StatusForbidden_def)
  from resp st auth show ?thesis by blast
qed

theorem auth_hook_authenticates_iff_witness:
  "GetTenantByUsername example_db (req_Username example_req) = Inr example_tenant
   \<and> ExternalAuthHook example_cfg example_db ''POST'' (Some example_req)
       = writeJSON StatusOK (sftpgoUser example_cfg example_tenant)"
proof -
  have h: "GetTenantByUsername example_db (req_Username example_req) = Inr example_tenant"
    by (simp add: GetTenantByUsername_def example_db_def example_req_def example_tenant_def)
  have m: "spec_pubkey_match example_req example_tenant"
    by code_simp
  show ?thesis using h m auth_hook_authenticates_iff [OF h, of example_cfg] by simp
qed

lemma auth_hook_known:
  "GetTenantByUsername db (req_Username req) = Inr tenant \<Longrightarrow>
   ExternalAuthHook cfg db ''POST'' (Some req) =
     (if spec_pubkey_match req tenant \<or> spec_password_match req tenant
      then writeJSON StatusOK (sftpgoUser cfg tenant) else http_Error [] StatusForbidden)"
  by (simp add: ExternalAuthHook_def Let_def pubkey_step_spec password_step_spec)

lemma auth_hook_unknown:
  "GetTenantByUsername db (req_Username req) = Inl err \<Longrightarrow>
   ExternalAuthHook cfg db ''POST'' (Some req) = http_Error [] StatusForbidden"
  by (simp add: ExternalAuthHook_def)

lemma auth_hook_malformed:
  \<open>ExternalAuthHook cfg db ''POST'' None = http_Error ''{"username":""}'' StatusOK\<close>
  by (simp add: ExternalAuthHook_def)

text \<open>
  Claim C3 as stated fails: a POST whose body cannot be decoded is answered with status 200
  and the body \<open>{"username":""}\<close>, not with a forbidden status and an empty body.
\<close>

theorem auth_hook_malformed_body_counterexample:
  \<open>status (ExternalAuthHook example_cfg example_db ''POST'' None) = 200
   \<and> status (ExternalAuthHook example_cfg example_db ''POST'' None) \<noteq> StatusForbidden
   \<and> body (ExternalAuthHook example_cfg example_db ''POST'' None) = Raw (''{"username":""}'' @ [CHR 0x0A])\<close>
  by (simp add: ExternalAuthHook_def http_Error_def StatusOK_def StatusForbidden_def)

text \<open>
  Claim C3, amended. For a POST to the authentication hook: a body that cannot be decoded
  is answered with status 200 and the body \<open>{"username":""}\<close> followed by a line feed;
  an unknown username and a failed credential check are answered with status 403 and the
  empty message (the body is the line feed that \<open>http.Error\<close> appends); a JSON user
  descriptor is returned only for a decoded request of a registered tenant whose
  credential check succeeded, with status 200.
\<close>

theorem auth_hook_failure_responses:
  \<open>ExternalAuthHook cfg db ''POST'' None =
       \<lparr>status = 200, body = Raw (''{"username":""}'' @ [CHR 0x0A])\<rparr>
   \<and> (GetTenantByUsername db (req_Username req_u) = Inl err \<longrightarrow>
        ExternalAuthHook cfg db ''POST'' (Some req_u) = \<lparr>status = 403, body = Raw [CHR 0x0A]\<rparr>)
   \<and> (GetTenantByUsername db (req_Username req_f) = Inr tenant \<and>
        \<not> spec_pubkey_match req_f tenant \<and> \<not> spec_password_match req_f tenant \<longrightarrow>
        ExternalAuthHook cfg db ''POST'' (Some req_f) = \<lparr>status = 403, body = Raw [CHR 0x0A]\<rparr>)
   \<and> (body (ExternalAuthHook cfg db ''POST'' reqBody) = JSON j \<longrightarrow>
        (\<exists>req t. reqBody = Some req \<and> GetTenantByUsername db (req_Username req) = Inr t \<and>
                 (spec_pubkey_match req t \<or> spec_password_match req t) \<and>
                 status (ExternalAuthHook cfg db ''POST'' reqBody) = 200 \<and> j = sftpgoUser cfg t))\<close>
proof -
  have a: \<open>ExternalAuthHook cfg db ''POST'' None =
       \<lparr>status = 200, body = Raw (''{"username":""}'' @ [CHR 0x0A])\<rparr>\<close>
    by (simp add: auth_hook_malformed http_Error_def StatusOK_def)
  have b: "GetTenantByUsername db (req_Username req_u) = Inl err \<longrightarrow>
        ExternalAuthHook cfg db ''POST'' (Some req_u) = \<lparr>status = 403, body = Raw [CHR 0x0A]\<rparr>"
    by (simp add: auth_hook_unknown http_Error_def StatusForbidden_def)
  have c: "GetTenantByUsername db (req_Username req_f) = Inr tenant \<and>
        \<not> spec_pubkey_match req_f tenant \<and> \<not> spec_password_match req_f tenant \<longrightarrow>
        ExternalAuthHook cfg db ''POST'' (Some req_f) = \<lparr>status = 403, body = Raw [CHR 0x0A]\<rparr>"
    by (simp add: auth_hook_known http_Error_def StatusForbidden_def)
  have d: "body (ExternalAuthHook cfg db ''POST'' reqBody) = JSON j \<longrightarrow>
        (\<exists>req t. reqBody = Some req \<and> GetTenantByUsername db (req_Username req) = Inr t \<and>
                 (spec_pubkey_match req t \<or> spec_password_match req t) \<and>
                 status (ExternalAuthHook cfg db ''POST'' reqBody) = 200 \<and> j = sftpgoUser cfg t)"
  proof
    assume j: "body (ExternalAuthHook cfg db ''POST'' reqBody) = JSON j"
    show "\<exists>req t. reqBody = Some req \<and> GetTenantByUsername db (req_Username req) = Inr t \<and>
                 (spec_pubkey_match req t \<or> spec_password_match req t) \<and>
                 status (ExternalAuthHook cfg db ''POST'' reqBody) = 200 \<and> j = sftpgoUser cfg t"
    proof (cases reqBody)
      case None
      with j show ?thesis by (simp add: auth_hook_malformed http_Error_def)
    next
      case (Some req)
      show ?thesis
      proof (cases "GetTenantByUsername db (req_Username req)")
        case (Inl e)
        with j Some show ?thesis by (simp add: auth_hook_unknown http_Error_def)
      next
        case (Inr t)
        with j Some show ?thesis
          by (auto simp: auth_hook_known http_Error_def writeJSON_def StatusOK_def split: if_splits)
      qed
    qed
  qed
  from a b c d show ?thesis by blast
qed

theorem auth_hook_failure_responses_witness:
  \<open>GetTenantByUsername example_db (req_Username unknown_req) =
       Inl (''get tenant by username '' @ quote ''nobody'' @ '': '' @ ErrNoRows)
   \<and> ExternalAuthHook example_cfg example_db ''POST'' (Some unknown_req) = \<lparr>status = 403, body = Raw [CHR 0x0A]\<rparr>
   \<and> GetTenantByUsername example_db (req_Username wrong_req) = Inr example_tenant
   \<and> \<not> spec_pubkey_match wrong_req example_tenant \<and> \<not> spec_password_match wrong_req example_tenant
   \<and> ExternalAuthHook example_cfg example_db ''POST'' (Some wrong_req) = \<lparr>status = 403, body = Raw [CHR 0x0A]\<rparr>
   \<and> body (ExternalAuthHook example_cfg example_db ''POST'' (Some example_req)) = JSON (sftpgoUser example_cfg example_tenant)
   \<and> status (ExternalAuthHook example_cfg example_db ''POST'' (Some example_req)) = 200\<close>
proof -
  have u: "GetTenantByUsername example_db (req_Username unknown_req) =
       Inl (''get tenant by username '' @ quote ''nobody'' @ '': '' @ ErrNoRows)"
    by (simp add: GetTenantByUsername_def example_db_def unknown_req_def example_tenant_def)
  have w: "GetTenantByUsername example_db (req_Username wrong_req) = Inr example_tenant"
    by (simp add: GetTenantByUsername_def example_db_def wrong_req_def example_tenant_def)
  have n1: "\<not> spec_pubkey_match wrong_req example_tenant"
    by code_simp
  have n2: "\<not> spec_password_match wrong_req example_tenant"
    by (simp add: spec_password_match_def wrong_req_def example_tenant_def)
  have j: "body (ExternalAuthHook example_cfg example_db ''POST'' (Some example_req)) = JSON (sftpgoUser example_cfg example_tenant)"
    by code_simp
  from auth_hook_failure_responses [of example_cfg example_db unknown_req
      "''get tenant by username '' @ quote ''nobody'' @ '': '' @ ErrNoRows" wrong_req example_tenant
      "Some example_req" "sftpgoUser example_cfg example_tenant"] u w n1 n2 j
  show ?thesis by blast
qed

text \<open>
  Claim C10. When the username resolves to a tenant whose stored password and stored
  public key are both empty, the handler answers forbidden whatever password or public key
  the request carries: neither the public-key step nor the password step authenticates.
\<close>

theorem auth_hook_rejects_without_credentials:
  assumes "GetTenantByUsername db (req_Username req) = Inr tenant"
      and "Password tenant = []" and "PublicKey tenant = []"
  shows "ExternalAuthHook cfg db ''POST'' (Some req) = http_Error [] StatusForbidden
         \<and> status (ExternalAuthHook cfg db ''POST'' (Some req)) = 403
         \<and> pubkey_step req tenant False = False
         \<and> password_step req tenant False = False"
proof -
  have k: "pubkey_step req tenant False = False"
    using assms(3) by (simp add: pubkey_step_def)
  have p: "password_step req tenant False = False"
    using assms(2) by (simp add: password_step_def)
  have r: "ExternalAuthHook cfg db ''POST'' (Some req) = http_Error [] StatusForbidden"
    using assms(1) k p by (simp add: ExternalAuthHook_def Let_def)
  from k p r show ?thesis by (simp add: http_Error_def StatusForbidden_def)
qed

theorem auth_hook_rejects_without_credentials_witness:
  "GetTenantByUsername bare_db (req_Username bare_req) = Inr bare_tenant
   \<and> Password bare_tenant = [] \<and> PublicKey bare_tenant = []
   \<and> status (ExternalAuthHook example_cfg bare_db ''POST'' (Some bare_req)) = 403"
proof -
  have h: "GetTenantByUsername bare_db (req_Username bare_req) = Inr bare_tenant"
    by (simp add: GetTenantByUsername_def bare_db_def bare_req_def bare_tenant_def)
  have p: "Password bare_tenant = []" by (simp add: bare_tenant_def)
  have k: "PublicKey bare_tenant = []" by (simp add: bare_tenant_def)
  from auth_hook_rejects_without_credentials [OF h p k, of example_cfg] h p k
  show ?thesis by blast
qed

section \<open>Properties of the registry\<close>

lemma CreateTenant_unique:
  "tenants_unique db \<Longrightarrow> tenants_unique (snd (CreateTenant db now tid u p k h))"
  by (auto simp: CreateTenant_def tenants_unique_def Let_def)

lemma update_key_keeps_names:
  "Username \<circ> (\<lambda>t. if ID t = i then t\<lparr>PublicKey := k\<rparr> else t) = Username"
  "TenantID \<circ> (\<lambda>t. if ID t = i then t\<lparr>PublicKey := k\<rparr> else t) = TenantID"
  by (auto simp: fun_eq_iff)

lemma UpdateTenantPublicKey_unique:
  "tenants_unique db \<Longrightarrow> tenants_unique (snd (UpdateTenantPublicKey db i k))"
  by (simp add: UpdateTenantPublicKey_def tenants_unique_def update_key_keeps_names)

lemma DeleteTenant_unique:
  "tenants_unique db \<Longrightarrow> tenants_unique (snd (DeleteTenant db i))"
  by (auto simp: DeleteTenant_def tenants_unique_def distinct_map_filter split: option.splits)

lemma apply_tenant_op_unique:
  "tenants_unique db \<Longrightarrow> tenants_unique (apply_tenant_op db op)"
  by (cases op) (simp_all add: CreateTenant_unique UpdateTenantPublicKey_unique DeleteTenant_unique)

lemma foldl_tenant_ops_unique:
  "tenants_unique db \<Longrightarrow> tenants_unique (foldl apply_tenant_op db ops)"
  by (induction ops arbitrary: db) (simp_all add: apply_tenant_op_unique)

text \<open>
  Claim C5. After any sequence of registry calls on the tenants table, starting from the
  empty registry (creations, and also key updates and deletions), no two tenants share a
  username and no two share a tenant token; and creating a tenant whose username or tenant
  token is already present fails and leaves the registry as it was.
\<close>

theorem tenant_uniqueness:
  "tenants_unique (run_tenant_ops ops :: 'v DB)
   \<and> ((\<exists>t \<in> set (tenants (run_tenant_ops ops :: 'v DB)). Username t = username \<or> TenantID t = tenantID) \<longrightarrow>
        (\<exists>e. CreateTenant (run_tenant_ops ops :: 'v DB) now tenantID username password publicKey homeDir
              = (Inl e, run_tenant_ops ops)))"
proof -
  have "tenants_unique (NewDB :: 'v DB)" by (simp add: tenants_unique_def NewDB_def)
  then have u: "tenants_unique (run_tenant_ops ops :: 'v DB)"
    unfolding run_tenant_ops_def by (rule foldl_tenant_ops_unique)
  have f: "(\<exists>t \<in> set (tenants db). Username t = username \<or> TenantID t = tenantID) \<longrightarrow>
        (\<exists>e. CreateTenant db now tenantID username password publicKey homeDir = (Inl e, db))"
    for db :: "'v DB"
    by (auto simp: CreateTenant_def)
  from u f show ?thesis by blast
qed

theorem tenant_uniqueness_witness:
  "(\<exists>t \<in> set (tenants (run_tenant_ops dup_ops :: int DB)). Username t = ''sameuser'' \<or> TenantID t = ''tid2'')
   \<and> isl (fst (CreateTenant (run_tenant_ops dup_ops :: int DB) 5 ''tid2'' ''sameuser'' ''p2'' [] ''/d/2''))
   \<and> snd (CreateTenant (run_tenant_ops dup_ops :: int DB) 5 ''tid2'' ''sameuser'' ''p2'' [] ''/d/2'')
       = run_tenant_ops dup_ops"
proof -
  have h: "\<exists>t \<in> set (tenants (run_tenant_ops dup_ops :: int DB)). Username t = ''sameuser'' \<or> TenantID t = ''tid2''"
    by (simp add: run_tenant_ops_def dup_ops_def CreateTenant_def NewDB_def next_rowid_def Let_def)
  from tenant_uniqueness [of dup_ops "''sameuser''" "''tid2''" 5 "''p2''" "[]" "''/d/2''", where ?'v = int] h
  show ?thesis by auto
qed

lemma filter_unique_key:
  "distinct (map f xs) \<Longrightarrow> \<exists>x \<in> set xs. f x = a \<Longrightarrow> \<exists>x. filter (\<lambda>y. f y = a) xs = [x]"
proof (induction xs)
  case Nil
  then show ?case by simp
next
  case (Cons y ys)
  show ?case
  proof (cases "f y = a")
    case True
    from Cons.prems(1) have "f y \<notin> f ` set ys" by simp
    with True have "\<forall>z \<in> set ys. f z \<noteq> a" by (metis imageI)
    then have "filter (\<lambda>z. f z = a) ys = []" by (simp add: filter_empty_conv)
    with True show ?thesis by simp
  next
    case False
    with Cons show ?thesis by auto
  qed
qed

lemma filter_map_commute:
  "(\<And>x. P (u x) = P x) \<Longrightarrow> filter P (map u xs) = map u (filter P xs)"
  by (induction xs) auto

lemma upsert_one_row:
  assumes "records_unique db"
  shows "records_unique (snd (UpsertRecord db now None tid k ti de ca va))
    \<and> (\<exists>r. filter (same_key tid k) (records (snd (UpsertRecord db now None tid k ti de ca va))) = [r]
           \<and> Title r = ti \<and> Description r = de \<and> Category r = ca \<and> Value r = va \<and> UpdatedAt r = now)"
proof (cases "\<exists>r \<in> set (records db). same_key tid k r")
  case False
  then have nf: "filter (same_key tid k) (records db) = []"
    by (simp add: filter_empty_conv)
  from False have nk: "(tid, k) \<notin> set (map (\<lambda>r. (rec_TenantID r, RecordKey r)) (records db))"
    by (auto simp: same_key_def)
  have recs: "records (snd (UpsertRecord db now None tid k ti de ca va)) = records db @
      [\<lparr>rec_ID = next_rowid (map rec_ID (records db)), rec_TenantID = tid, RecordKey = k,
        Title = ti, Description = de, Category = ca, Value = va, UpdatedAt = now\<rparr>]"
    using False by (simp add: UpsertRecord_def)
  have uniq: "records_unique (snd (UpsertRecord db now None tid k ti de ca va))"
    using assms nk by (simp add: records_unique_def recs)
  from uniq nf show ?thesis
    by (simp add: recs same_key_def)
next
  case True
  let ?u = "\<lambda>r. if same_key tid k r
              then r\<lparr>Title := ti, Description := de, Category := ca, Value := va, UpdatedAt := now\<rparr>
              else r"
  have recs: "records (snd (UpsertRecord db now None tid k ti de ca va)) = map ?u (records db)"
    using True by (simp add: UpsertRecord_def)
  have keys: "(\<lambda>r. (rec_TenantID r, RecordKey r)) \<circ> ?u = (\<lambda>r. (rec_TenantID r, RecordKey r))"
    by (auto simp: fun_eq_iff)
  have uniq: "records_unique (snd (UpsertRecord db now None tid k ti de ca va))"
    using assms by (simp add: records_unique_def recs keys)
  have sk: "same_key tid k = (\<lambda>r. (rec_TenantID r, RecordKey r) = (tid, k))"
    by (auto simp: same_key_def fun_eq_iff)
  from True have ex: "\<exists>r \<in> set (records db). (rec_TenantID r, RecordKey r) = (tid, k)"
    by (auto simp: same_key_def)
  from assms have d: "distinct (map (\<lambda>r. (rec_TenantID r, RecordKey r)) (records db))"
    by (simp add: records_unique_def)
  from filter_unique_key [OF d ex] obtain r0
    where "filter (\<lambda>y. (rec_TenantID y, RecordKey y) = (tid, k)) (records db) = [r0]"
    by blast
  then have r0: "filter (same_key tid k) (records db) = [r0]"
    by (simp add: sk)
  then have "r0 \<in> set (filter (same_key tid k) (records db))" by simp
  then have r0k: "same_key tid k r0" by simp
  have "filter (same_key tid k) (map ?u (records db)) = map ?u (filter (same_key tid k) (records db))"
    by (rule filter_map_commute) (simp add: same_key_def)
  with r0 r0k have "filter (same_key tid k) (map ?u (records db)) =
      [r0\<lparr>Title := ti, Description := de, Category := ca, Value := va, UpdatedAt := now\<rparr>]"
    by simp
  with uniq recs show ?thesis by simp
qed

text \<open>
  Claim C4. In a registry that satisfies the uniqueness constraint of the records table,
  two successive upserts of the same (tenant token, record key) leave exactly one record
  for that pair; its title, description, category and value are those of the second call
  and its updated-at timestamp is the time of the second call. The constraint holds again
  afterwards (it holds of the empty registry and every upsert keeps it).
\<close>

theorem upsert_twice_last_write_wins:
  assumes "records_unique db"
  shows "\<exists>r. filter (same_key tid k)
               (records (snd (UpsertRecord (snd (UpsertRecord db t1 None tid k title1 desc1 cat1 val1))
                                t2 None tid k title2 desc2 cat2 val2))) = [r]
             \<and> Title r = title2 \<and> Description r = desc2 \<and> Category r = cat2 \<and> Value r = val2
             \<and> UpdatedAt r = t2
             \<and> records_unique (snd (UpsertRecord (snd (UpsertRecord db t1 None tid k title1 desc1 cat1 val1))
                                      t2 None tid k title2 desc2 cat2 val2))"
proof -
  have "records_unique (snd (UpsertRecord db t1 None tid k title1 desc1 cat1 val1))"
    using upsert_one_row [OF assms] by blast
  from upsert_one_row [OF this, of t2 tid k title2 desc2 cat2 val2]
  show ?thesis by blast
qed

theorem upsert_twice_last_write_wins_witness:
  "records_unique (NewDB :: int DB)
   \<and> (\<exists>r. filter (same_key ''tid1'' ''REC-001'')
               (records (snd (UpsertRecord (snd (UpsertRecord (NewDB :: int DB) 1 None ''tid1'' ''REC-001''
                                                    ''Original'' ''desc'' ''cat'' 10))
                                2 None ''tid1'' ''REC-001'' ''Updated'' ''new desc'' ''new-cat'' 99))) = [r]
             \<and> Title r = ''Updated'' \<and> Description r = ''new desc'' \<and> Category r = ''new-cat''
             \<and> Value r = 99 \<and> UpdatedAt r = 2)"
proof -
  have h: "records_unique (NewDB :: int DB)"
    by (simp add: records_unique_def NewDB_def)
  from upsert_twice_last_write_wins [OF h, of "''tid1''" "''REC-001''" 1 "''Original''" "''desc''"
      "''cat''" 10 2 "''Updated''" "''new desc''" "''new-cat''" 99] h
  show ?thesis by blast
qed

section \<open>Properties of the external server client\<close>

lemma getToken_hit:
  "token c \<noteq> [] \<Longrightarrow> Now w < tokenExp c \<Longrightarrow> getToken w c = (Inr (token c), c, [])"
  by (simp add: getToken_def)

lemma getToken_miss_sent:
  "\<not> (token c \<noteq> [] \<and> Now w < tokenExp c) \<Longrightarrow>
   NewRequest_err w ''GET'' (baseURL c @ ''/api/v2/token'') = None \<Longrightarrow>
   snd (snd (getToken w c)) = [token_request c]"
  by (auto simp: getToken_def Let_def split: sum.splits prod.splits)

lemma getToken_miss_ok:
  "\<not> (token c \<noteq> [] \<and> Now w < tokenExp c) \<Longrightarrow>
   NewRequest_err w ''GET'' (baseURL c @ ''/api/v2/token'') = None \<Longrightarrow>
   Do w (token_request c) = Inr resp \<Longrightarrow> StatusCode resp = StatusOK \<Longrightarrow>
   decode_token w (resp_Body resp) = Inr (tok, expiry) \<Longrightarrow>
   getToken w c = (Inr tok, c\<lparr>token := tok, tokenExp := expiry - 30 * Second\<rparr>, [token_request c])"
  by (auto simp: getToken_def Let_def)

text \<open>
  Claim C9. \<open>getToken\<close> returns the cached token, sends nothing and leaves the client as it
  is whenever a token is cached and the current time is before the stored threshold.
  Otherwise, when the token request can be built, it sends exactly that one request; when
  the answer is a 200 that decodes to a token \<open>tok\<close> with reported expiry \<open>expiry\<close>, it
  returns \<open>tok\<close> and caches it with the threshold \<open>expiry\<close> minus 30 seconds. A later call
  on that client then reuses \<open>tok\<close> without a request exactly while a token is cached and
  the time is earlier than 30 seconds before \<open>expiry\<close>, and sends a new request otherwise.
\<close>

theorem getToken_cache:
  "(token c \<noteq> [] \<and> Now w < tokenExp c \<longrightarrow> getToken w c = (Inr (token c), c, []))
   \<and> (\<not> (token c \<noteq> [] \<and> Now w < tokenExp c) \<and>
        NewRequest_err w ''GET'' (baseURL c @ ''/api/v2/token'') = None \<longrightarrow>
        snd (snd (getToken w c)) = [token_request c]
        \<and> (Do w (token_request c) = Inr resp \<and> StatusCode resp = StatusOK \<and>
             decode_token w (resp_Body resp) = Inr (tok, expiry) \<longrightarrow>
             getToken w c = (Inr tok, c\<lparr>token := tok, tokenExp := expiry - 30 * Second\<rparr>, [token_request c])
             \<and> (spec_token_fresh tok expiry (Now w') \<longrightarrow>
                  getToken w' (c\<lparr>token := tok, tokenExp := expiry - 30 * Second\<rparr>)
                    = (Inr tok, c\<lparr>token := tok, tokenExp := expiry - 30 * Second\<rparr>, []))
             \<and> (\<not> spec_token_fresh tok expiry (Now w') \<and>
                  NewRequest_err w' ''GET'' (baseURL c @ ''/api/v2/token'') = None \<longrightarrow>
                  snd (snd (getToken w' (c\<lparr>token := tok, tokenExp := expiry - 30 * Second\<rparr>)))
                    = [token_request c])))"
proof -
  let ?c' = "c\<lparr>token := tok, tokenExp := expiry - 30 * Second\<rparr>"
  have fresh: "spec_token_fresh tok expiry (Now w') = (token ?c' \<noteq> [] \<and> Now w' < tokenExp ?c')"
    by (simp add: spec_token_fresh_def)
  have tr: "token_request ?c' = token_request c"
    by (simp add: token_request_def)
  have later_hit: "spec_token_fresh tok expiry (Now w') \<longrightarrow> getToken w' ?c' = (Inr tok, ?c', [])"
    using getToken_hit [of ?c' w'] by (simp add: fresh)
  have later_miss: "\<not> spec_token_fresh tok expiry (Now w') \<and>
        NewRequest_err w' ''GET'' (baseURL c @ ''/api/v2/token'') = None \<longrightarrow>
        snd (snd (getToken w' ?c')) = [token_request c]"
    using getToken_miss_sent [of ?c' w'] by (simp add: fresh tr)
  from getToken_hit [of c w] getToken_miss_sent [of c w] getToken_miss_ok [of c w resp tok expiry]
       later_hit later_miss
  show ?thesis by blast
qed

theorem getToken_cache_witness:
  "\<not> (token example_client \<noteq> [] \<and> Now example_world < tokenExp example_client)
   \<and> getToken example_world example_client
       = (Inr ''abc'', example_client\<lparr>token := ''abc'', tokenExp := 1000 * Second - 30 * Second\<rparr>,
          [token_request example_client])
   \<and> spec_token_fresh ''abc'' (1000 * Second) (Now (example_world\<lparr>Now := 969 * Second\<rparr>))
   \<and> getToken (example_world\<lparr>Now := 969 * Second\<rparr>)
         (example_client\<lparr>token := ''abc'', tokenExp := 1000 * Second - 30 * Second\<rparr>)
       = (Inr ''abc'', example_client\<lparr>token := ''abc'', tokenExp := 1000 * Second - 30 * Second\<rparr>, [])"
proof -
  have m: "\<not> (token example_client \<noteq> [] \<and> Now example_world < tokenExp example_client)"
    by (simp add: example_client_def NewSFTPGoClient_def)
  have b: "NewRequest_err example_world ''GET'' (baseURL example_client @ ''/api/v2/token'') = None"
    by (simp add: example_world_def)
  have d: "Do example_world (token_request example_client) = Inr \<lparr>StatusCode = 200, resp_Body = ''token-document''\<rparr>"
    by (simp add: example_world_def token_request_def example_client_def NewSFTPGoClient_def)
  have s: "StatusCode \<lparr>StatusCode = 200, resp_Body = ''token-document''\<rparr> = StatusOK"
    by (simp add: StatusOK_def)
  have t: "decode_token example_world (resp_Body \<lparr>StatusCode = 200, resp_Body = ''token-document''\<rparr>)
             = Inr (''abc'', 1000 * Second)"
    by (simp add: example_world_def)
  have f: "spec_token_fresh ''abc'' (1000 * Second) (Now (example_world\<lparr>Now := 969 * Second\<rparr>))"
    by (simp add: spec_token_fresh_def Second_def)
  from getToken_cache [of example_client example_world "\<lparr>StatusCode = 200, resp_Body = ''token-document''\<rparr>"
      "''abc''" "1000 * Second" "example_world\<lparr>Now := 969 * Second\<rparr>"] m b d s t f
  show ?thesis by blast
qed

section \<open>Properties of the provisioning handlers\<close>

lemma CreateTenant_error_unchanged:
  "CreateTenant d now tid u p k hdir = (Inl e, d2) \<Longrightarrow> d2 = d"
  by (auto simp: CreateTenant_def Let_def split: if_splits)

lemma create_external_failure:
  assumes "cr_Username req \<noteq> []"
      and "create_password w req = Inr password"
      and "rand_tenant_id w = Inr tidBytes"
      and "CreateUser w (h_sftpgo h) (cr_Username req) password
             (filepath_Join w (DataDir (h_cfg h)) (hex_EncodeToString tidBytes)) (pub_keys req)
             (s3_of_cfg (h_cfg h)) (hex_EncodeToString tidBytes) = (Some err, c', sent)"
  shows "Handlers_CreateTenant w h ''POST'' (Some req)
           = (writeError StatusBadGateway err, h\<lparr>h_sftpgo := c'\<rparr>, sent)"
  using assms by (simp add: Handlers_CreateTenant_def Let_def)

lemma create_registry_failure:
  assumes "cr_Username req \<noteq> []"
      and "create_password w req = Inr password"
      and "rand_tenant_id w = Inr tidBytes"
      and "CreateUser w (h_sftpgo h) (cr_Username req) password
             (filepath_Join w (DataDir (h_cfg h)) (hex_EncodeToString tidBytes)) (pub_keys req)
             (s3_of_cfg (h_cfg h)) (hex_EncodeToString tidBytes) = (None, c', sent)"
      and "CreateTenant (h_db h) (Now w) (hex_EncodeToString tidBytes) (cr_Username req) password
             (cr_PublicKey req) (filepath_Join w (DataDir (h_cfg h)) (hex_EncodeToString tidBytes))
             = (Inl err, d')"
  shows "Handlers_CreateTenant w h ''POST'' (Some req)
           = (writeError StatusInternalServerError err, h\<lparr>h_db := d', h_sftpgo := c'\<rparr>, sent)"
  using assms by (simp add: Handlers_CreateTenant_def Let_def)

lemma delete_external_failure:
  assumes "parseID path ''/api/tenants/'' = Inr i"
      and "DeleteTenant (h_db h) i = (Inr username, d')"
      and "DeleteUser w (h_sftpgo h) username = (Some err, c', sent)"
  shows "Handlers_DeleteTenant w h ''DELETE'' path
           = (writeError StatusBadGateway (''deleted from db but sftpgo failed: '' @ err),
              h\<lparr>h_db := d', h_sftpgo := c'\<rparr>, sent)"
  using assms by (simp add: Handlers_DeleteTenant_def)

lemma create_db_changes_only_on_created:
  "status (fst (Handlers_CreateTenant w h rMethod reqBody)) \<noteq> StatusCreated \<Longrightarrow>
   h_db (fst (snd (Handlers_CreateTenant w h rMethod reqBody))) = h_db h"
  by (auto simp: Handlers_CreateTenant_def Let_def writeJSON_def
           split: if_splits option.splits sum.splits prod.splits
           dest: CreateTenant_error_unchanged)

text \<open>
  Claim C2. When the create-user call on the external server fails during a tenant
  creation, the handler answers 502 with that error and the registry is the one before
  the call: no tenant row is inserted. More generally the registry differs after the
  handler only when it answers 201.
\<close>

theorem create_tenant_external_failure:
  assumes "cr_Username req \<noteq> []"
      and "create_password w req = Inr password"
      and "rand_tenant_id w = Inr tidBytes"
      and "CreateUser w (h_sftpgo h) (cr_Username req) password
             (filepath_Join w (DataDir (h_cfg h)) (hex_EncodeToString tidBytes)) (pub_keys req)
             (s3_of_cfg (h_cfg h)) (hex_EncodeToString tidBytes) = (Some err, c', sent)"
  shows "Handlers_CreateTenant w h ''POST'' (Some req)
           = (writeError StatusBadGateway err, h\<lparr>h_sftpgo := c'\<rparr>, sent)
         \<and> status (fst (Handlers_CreateTenant w h ''POST'' (Some req))) = 502
         \<and> h_db (fst (snd (Handlers_CreateTenant w h ''POST'' (Some req)))) = h_db h
         \<and> (status (fst (Handlers_CreateTenant w h rMethod reqBody)) \<noteq> StatusCreated \<longrightarrow>
              h_db (fst (snd (Handlers_CreateTenant w h rMethod reqBody))) = h_db h)"
proof -
  have r: "Handlers_CreateTenant w h ''POST'' (Some req)
           = (writeError StatusBadGateway err, h\<lparr>h_sftpgo := c'\<rparr>, sent)"
    using assms by (rule create_external_failure)
  have s: "status (fst (Handlers_CreateTenant w h ''POST'' (Some req))) = 502"
    by (simp add: r writeError_def StatusBadGateway_def)
  have d: "h_db (fst (snd (Handlers_CreateTenant w h ''POST'' (Some req)))) = h_db h"
    by (simp add: r)
  from r s d create_db_changes_only_on_created [of w h rMethod reqBody]
  show ?thesis by blast
qed

theorem create_tenant_external_failure_witness:
  "cr_Username example_create \<noteq> []
   \<and> create_password down_world example_create = Inr ''secret123''
   \<and> rand_tenant_id down_world = Inr ''fedcba9876543210''
   \<and> Handlers_CreateTenant down_world example_handlers ''POST'' (Some example_create)
       = (writeError StatusBadGateway ''token request: connection refused'',
          example_handlers\<lparr>h_sftpgo := example_client\<rparr>, [token_request example_client])
   \<and> h_db (fst (snd (Handlers_CreateTenant down_world example_handlers ''POST'' (Some example_create))))
       = h_db example_handlers"
proof -
  have u: "cr_Username example_create \<noteq> []"
    by (simp add: example_create_def)
  have p: "create_password down_world example_create = Inr ''secret123''"
    by (simp add: create_password_def example_create_def)
  have t: "rand_tenant_id down_world = Inr ''fedcba9876543210''"
    by (simp add: down_world_def example_world_def)
  have c: "CreateUser down_world (h_sftpgo example_handlers) (cr_Username example_create) ''secret123''
             (filepath_Join down_world (DataDir (h_cfg example_handlers)) (hex_EncodeToString ''fedcba9876543210''))
             (pub_keys example_create) (s3_of_cfg (h_cfg example_handlers))
             (hex_EncodeToString ''fedcba9876543210'')
           = (Some ''token request: connection refused'', example_client, [token_request example_client])"
    by (simp add: CreateUser_def doAuth_def getToken_def down_world_def example_world_def
        example_handlers_def example_client_def NewSFTPGoClient_def Let_def)
  from create_tenant_external_failure [OF u p t c] u p t
  show ?thesis by blast
qed

text \<open>
  Claim C8 as stated fails in the create direction: the external server creates the user
  (201), the registry refuses the row because the username is already registered, and the
  handler answers 500, not 502.
\<close>

theorem create_split_state_counterexample:
  "fst (CreateUser example_world example_client ''testuser'' ''secret123''
          (''/tmp/test/'' @ hex_EncodeToString ''fedcba9876543210'') [] None
          (hex_EncodeToString ''fedcba9876543210'')) = None
   \<and> isl (fst (CreateTenant example_db (Now example_world) (hex_EncodeToString ''fedcba9876543210'')
                  ''testuser'' ''secret123'' [] (''/tmp/test/'' @ hex_EncodeToString ''fedcba9876543210'')))
   \<and> status (fst (Handlers_CreateTenant example_world example_handlers ''POST'' (Some example_create))) = 500
   \<and> status (fst (Handlers_CreateTenant example_world example_handlers ''POST'' (Some example_create)))
       \<noteq> StatusBadGateway"
  by (simp add: Handlers_CreateTenant_def CreateUser_def doAuth_def getToken_def CreateTenant_def
      create_password_def pub_keys_def s3_of_cfg_def token_request_def
      example_world_def example_handlers_def example_client_def example_create_def example_db_def
      example_tenant_def example_cfg_def NewSFTPGoClient_def Let_def writeError_def
      StatusOK_def StatusCreated_def StatusInternalServerError_def StatusBadGateway_def
      hex_EncodeToString_def hexdigit_def)

text \<open>
  Claim C8, amended. When the external delete fails after the registry delete succeeded,
  the handler answers 502 with the message \<open>deleted from db but sftpgo failed: \<close> followed
  by the error. When the registry write fails after the external create succeeded, the
  handler answers 500 with a JSON error object, and the registry is unchanged.
\<close>

theorem split_state_responses:
  "(parseID path ''/api/tenants/'' = Inr i \<and> DeleteTenant (h_db h) i = (Inr username, d') \<and>
    DeleteUser w (h_sftpgo h) username = (Some err, c', sent) \<longrightarrow>
      Handlers_DeleteTenant w h ''DELETE'' path
        = (writeError StatusBadGateway (''deleted from db but sftpgo failed: '' @ err),
           h\<lparr>h_db := d', h_sftpgo := c'\<rparr>, sent)
      \<and> status (fst (Handlers_DeleteTenant w h ''DELETE'' path)) = 502)
   \<and> (cr_Username req \<noteq> [] \<and> create_password w2 req = Inr password \<and>
       rand_tenant_id w2 = Inr tidBytes \<and>
       CreateUser w2 (h_sftpgo h2) (cr_Username req) password
         (filepath_Join w2 (DataDir (h_cfg h2)) (hex_EncodeToString tidBytes)) (pub_keys req)
         (s3_of_cfg (h_cfg h2)) (hex_EncodeToString tidBytes) = (None, c2, sent2) \<and>
       CreateTenant (h_db h2) (Now w2) (hex_EncodeToString tidBytes) (cr_Username req) password
         (cr_PublicKey req) (filepath_Join w2 (DataDir (h_cfg h2)) (hex_EncodeToString tidBytes))
         = (Inl err2, d2) \<longrightarrow>
      status (fst (Handlers_CreateTenant w2 h2 ''POST'' (Some req))) = 500
      \<and> (\<exists>m. body (fst (Handlers_CreateTenant w2 h2 ''POST'' (Some req))) = JSON (JObj [(''error'', JStr m)]))
      \<and> h_db (fst (snd (Handlers_CreateTenant w2 h2 ''POST'' (Some req)))) = h_db h2)"
proof -
  have del: "parseID path ''/api/tenants/'' = Inr i \<and> DeleteTenant (h_db h) i = (Inr username, d') \<and>
    DeleteUser w (h_sftpgo h) username = (Some err, c', sent) \<longrightarrow>
      Handlers_DeleteTenant w h ''DELETE'' path
        = (writeError StatusBadGateway (''deleted from db but sftpgo failed: '' @ err),
           h\<lparr>h_db := d', h_sftpgo := c'\<rparr>, sent)
      \<and> status (fst (Handlers_DeleteTenant w h ''DELETE'' path)) = 502"
    by (simp add: delete_external_failure writeError_def StatusBadGateway_def)
  have cre: "cr_Username req \<noteq> [] \<and> create_password w2 req = Inr password \<and>
       rand_tenant_id w2 = Inr tidBytes \<and>
       CreateUser w2 (h_sftpgo h2) (cr_Username req) password
         (filepath_Join w2 (DataDir (h_cfg h2)) (hex_EncodeToString tidBytes)) (pub_keys req)
         (s3_of_cfg (h_cfg h2)) (hex_EncodeToString tidBytes) = (None, c2, sent2) \<and>
       CreateTenant (h_db h2) (Now w2) (hex_EncodeToString tidBytes) (cr_Username req) password
         (cr_PublicKey req) (filepath_Join w2 (DataDir (h_cfg h2)) (hex_EncodeToString tidBytes))
         = (Inl err2, d2) \<longrightarrow>
      status (fst (Handlers_CreateTenant w2 h2 ''POST'' (Some req))) = 500
      \<and> (\<exists>m. body (fst (Handlers_CreateTenant w2 h2 ''POST'' (Some req))) = JSON (JObj [(''error'', JStr m)]))
      \<and> h_db (fst (snd (Handlers_CreateTenant w2 h2 ''POST'' (Some req)))) = h_db h2"
  proof (intro impI, elim conjE)
    assume a: "cr_Username req \<noteq> []" "create_password w2 req = Inr password"
       "rand_tenant_id w2 = Inr tidBytes"
       "CreateUser w2 (h_sftpgo h2) (cr_Username req) password
         (filepath_Join w2 (DataDir (h_cfg h2)) (hex_EncodeToString tidBytes)) (pub_keys req)
         (s3_of_cfg (h_cfg h2)) (hex_EncodeToString tidBytes) = (None, c2, sent2)"
       "CreateTenant (h_db h2) (Now w2) (hex_EncodeToString tidBytes) (cr_Username req) password
         (cr_PublicKey req) (filepath_Join w2 (DataDir (h_cfg h2)) (hex_EncodeToString tidBytes))
         = (Inl err2, d2)"
    have r: "Handlers_CreateTenant w2 h2 ''POST'' (Some req)
           = (writeError StatusInternalServerError err2, h2\<lparr>h_db := d2, h_sftpgo := c2\<rparr>, sent2)"
      using a by (rule create_registry_failure)
    have "d2 = h_db h2" using a(5) by (rule CreateTenant_error_unchanged)
    then show "status (fst (Handlers_CreateTenant w2 h2 ''POST'' (Some req))) = 500
      \<and> (\<exists>m. body (fst (Handlers_CreateTenant w2 h2 ''POST'' (Some req))) = JSON (JObj [(''error'', JStr m)]))
      \<and> h_db (fst (snd (Handlers_CreateTenant w2 h2 ''POST'' (Some req)))) = h_db h2"
      by (simp add: r writeError_def StatusInternalServerError_def)
  qed
  from del cre show ?thesis by blast
qed

theorem split_state_responses_witness:
  "parseID ''/api/tenants/1'' ''/api/tenants/'' = Inr 1
   \<and> fst (DeleteTenant (h_db example_handlers) 1) = Inr ''testuser''
   \<and> fst (DeleteUser example_world (h_sftpgo example_handlers) ''testuser'')
       = Some ''sftpgo delete user (500): boom''
   \<and> fst (Handlers_DeleteTenant example_world example_handlers ''DELETE'' ''/api/tenants/1'')
       = writeError StatusBadGateway
           (''deleted from db but sftpgo failed: '' @ ''sftpgo delete user (500): boom'')
   \<and> status (fst (Handlers_DeleteTenant example_world example_handlers ''DELETE'' ''/api/tenants/1'')) = 502
   \<and> status (fst (Handlers_CreateTenant example_world example_handlers ''POST'' (Some example_create))) = 500
   \<and> h_db (fst (snd (Handlers_CreateTenant example_world example_handlers ''POST'' (Some example_create))))
       = h_db example_handlers"
proof -
  let ?tid = "hex_EncodeToString ''fedcba9876543210''"
  let ?c = "example_client\<lparr>token := ''abc'', tokenExp := 1000 * Second - 30 * Second\<rparr>"
  have p: "parseID ''/api/tenants/1'' ''/api/tenants/'' = Inr 1"
    by (simp add: parseID_def TrimPrefix_def ParseInt_def is_digit_def Let_def)
  have d: "DeleteTenant (h_db example_handlers) 1 = (Inr ''testuser'', example_db\<lparr>tenants := []\<rparr>)"
    by (simp add: DeleteTenant_def example_handlers_def example_db_def example_tenant_def)
  have u: "DeleteUser example_world (h_sftpgo example_handlers) ''testuser''
      = (Some ''sftpgo delete user (500): boom'', ?c,
         [token_request example_client,
          \<lparr>rq_method = ''DELETE'', rq_url = ''http://localhost:8080/api/v2/users/testuser'',
           rq_auth = Bearer ''abc'', rq_body = None\<rparr>])"
    by (simp add: DeleteUser_def doAuth_def getToken_def token_request_def example_world_def
        example_handlers_def example_client_def NewSFTPGoClient_def Let_def StatusOK_def
        itoa_def utoa.simps digit_char_def)
  have n: "cr_Username example_create \<noteq> []"
    by (simp add: example_create_def)
  have pw: "create_password example_world example_create = Inr ''secret123''"
    by (simp add: create_password_def example_create_def)
  have t: "rand_tenant_id example_world = Inr ''fedcba9876543210''"
    by (simp add: example_world_def)
  have c: "CreateUser example_world (h_sftpgo example_handlers) (cr_Username example_create) ''secret123''
         (filepath_Join example_world (DataDir (h_cfg example_handlers)) ?tid) (pub_keys example_create)
         (s3_of_cfg (h_cfg example_handlers)) ?tid
       = (None, ?c,
          [token_request example_client,
           \<lparr>rq_method = ''POST'', rq_url = ''http://localhost:8080/api/v2/users'',
            rq_auth = Bearer ''abc'',
            rq_body = Some (create_user_payload ''testuser'' ''secret123''
                              (''/tmp/test/'' @ ?tid) [] None ?tid)\<rparr>])"
    by (simp add: CreateUser_def doAuth_def getToken_def token_request_def example_world_def
        example_handlers_def example_client_def example_create_def example_cfg_def
        pub_keys_def s3_of_cfg_def NewSFTPGoClient_def Let_def StatusOK_def StatusCreated_def)
  have r: "CreateTenant (h_db example_handlers) (Now example_world) ?tid (cr_Username example_create)
         ''secret123'' (cr_PublicKey example_create)
         (filepath_Join example_world (DataDir (h_cfg example_handlers)) ?tid)
       = (Inl (''insert tenant: '' @ ''UNIQUE constraint failed: tenants.username''), example_db)"
    by (simp add: CreateTenant_def example_handlers_def example_db_def example_tenant_def
        example_create_def hex_EncodeToString_def hexdigit_def)
  note th = split_state_responses [where path = "''/api/tenants/1''" and i = 1 and h = example_handlers
      and username = "''testuser''" and d' = "example_db\<lparr>tenants := []\<rparr>" and w = example_world
      and err = "''sftpgo delete user (500): boom''" and c' = ?c
      and sent = "[token_request example_client,
          \<lparr>rq_method = ''DELETE'', rq_url = ''http://localhost:8080/api/v2/users/testuser'',
           rq_auth = Bearer ''abc'', rq_body = None\<rparr>]"
      and req = example_create and ?w2.0 = example_world and password = "''secret123''"
      and tidBytes = "''fedcba9876543210''" and ?h2.0 = example_handlers and ?c2.0 = ?c
      and ?sent2.0 = "[token_request example_client,
           \<lparr>rq_method = ''POST'', rq_url = ''http://localhost:8080/api/v2/users'',
            rq_auth = Bearer ''abc'',
            rq_body = Some (create_user_payload ''testuser'' ''secret123''
                              (''/tmp/test/'' @ ?tid) [] None ?tid)\<rparr>]"
      and ?err2.0 = "''insert tenant: '' @ ''UNIQUE constraint failed: tenants.username''"
      and ?d2.0 = example_db]
  note del0 = th [THEN conjunct1, THEN mp, OF conjI [OF p conjI [OF d u]]]
  note cre0 = th [THEN conjunct2, THEN mp, OF conjI [OF n conjI [OF pw conjI [OF t conjI [OF c r]]]]]
  from del0 have del:
    "fst (Handlers_DeleteTenant example_world example_handlers ''DELETE'' ''/api/tenants/1'')
       = writeError StatusBadGateway
           (''deleted from db but sftpgo failed: '' @ ''sftpgo delete user (500): boom'')
     \<and> status (fst (Handlers_DeleteTenant example_world example_handlers ''DELETE'' ''/api/tenants/1'')) = 502"
    by (simp add: writeError_def StatusBadGateway_def)
  from cre0 have cre:
    "status (fst (Handlers_CreateTenant example_world example_handlers ''POST'' (Some example_create))) = 500
     \<and> h_db (fst (snd (Handlers_CreateTenant example_world example_handlers ''POST'' (Some example_create))))
         = h_db example_handlers"
    by blast
  from p d u del cre show ?thesis by (simp add: writeError_def StatusBadGateway_def)
qed

section \<open>Properties of the ingestion worker\<close>

lemma colIndex_fold_None:
  "length ns = length hs \<Longrightarrow>
   (fold (\<lambda>(i, h) m. m(TrimSpace (ToLower ml h) \<mapsto> i)) (zip ns hs) m) k = None
     \<longleftrightarrow> (m k = None \<and> k \<notin> set (map (\<lambda>h. TrimSpace (ToLower ml h)) hs))"
proof (induction hs arbitrary: ns m)
  case Nil
  then show ?case by simp
next
  case (Cons h hs)
  then obtain i ns' where ns: "ns = i # ns'" "length ns' = length hs"
    by (cases ns) auto
  show ?case
    using Cons.IH [OF ns(2), of "m(TrimSpace (ToLower ml h) \<mapsto> i)"]
    by (auto simp: ns)
qed

lemma build_colIndex_None:
  "build_colIndex ml header k = None \<longleftrightarrow> k \<notin> set (map (\<lambda>h. TrimSpace (ToLower ml h)) header)"
  unfolding build_colIndex_def
  using colIndex_fold_None [of "[0..<length header]" header ml Map.empty k] by simp

lemma find_required:
  "required \<in> {''key'', ''title'', ''value''} \<Longrightarrow> ci required = None \<Longrightarrow>
   \<exists>r. find (\<lambda>required. ci required = None) [''key'', ''title'', ''value''] = Some r"
proof -
  assume a: "required \<in> {''key'', ''title'', ''value''}" "ci required = None"
  have "find (\<lambda>required. ci required = None) [''key'', ''title'', ''value''] \<noteq> None"
    unfolding find_None_iff using a by auto
  then show ?thesis by auto
qed

text \<open>
  Claim C6. When the header of the uploaded file, each column name lowercased and
  trimmed, lacks one of \<open>key\<close>, \<open>title\<close>, \<open>value\<close>, the worker abandons the file before
  the row loop: the registry after the run is the registry before it, whatever rows follow.
\<close>

theorem missing_column_abandons_file:
  assumes "GetTenantByUsername db (event_string event ''username'') = Inr tenant"
      and "GetObject env (bucket wk)
             (TenantID tenant @ ''/'' @ TrimPrefix (event_string event ''virtual_path'') ''/'')
           = Inr (Line header # rest)"
      and "required \<in> {''key'', ''title'', ''value''}"
      and "required \<notin> set (map (\<lambda>h. TrimSpace (ToLower (Map_ToLower env) h)) header)"
  shows "snd (ProcessUploadEvent env wk db event) = db
         \<and> (\<exists>msg. fst (ProcessUploadEvent env wk db event) = Abandoned msg)"
proof -
  have rd: "csv_Read (NewReader (Line header # rest))
             = (Row header, \<lparr>pending = rest, FieldsPerRecord = int (length header)\<rparr>)"
    by (simp add: csv_Read_def NewReader_def)
  from assms(4) have "build_colIndex (Map_ToLower env) header required = None"
    by (simp add: build_colIndex_None)
  with assms(3) obtain r where
    r: "find (\<lambda>required. build_colIndex (Map_ToLower env) header required = None) [''key'', ''title'', ''value''] = Some r"
    using find_required by blast
  show ?thesis
    using assms(1,2) rd r by (simp add: ProcessUploadEvent_def Let_def)
qed

theorem missing_column_abandons_file_witness:
  "GetTenantByUsername example_db (event_string example_event ''username'') = Inr example_tenant
   \<and> ''value'' \<notin> set (map (\<lambda>h. TrimSpace (ToLower (Map_ToLower (example_env no_value_file)) h)) [''key'', ''title'', ''amount''])
   \<and> snd (ProcessUploadEvent (example_env no_value_file) example_worker example_db example_event)
       = example_db"
proof -
  have t: "GetTenantByUsername example_db (event_string example_event ''username'') = Inr example_tenant"
    by (simp add: GetTenantByUsername_def example_db_def example_event_def event_string_def
        example_tenant_def)
  have g: "GetObject (example_env no_value_file) (bucket example_worker)
             (TenantID example_tenant @ ''/'' @ TrimPrefix (event_string example_event ''virtual_path'') ''/'')
           = Inr (Line [''key'', ''title'', ''amount''] # [Line [''k1'', ''first'', ''10'']])"
    by (simp add: example_env_def example_worker_def example_tenant_def example_event_def
        event_string_def TrimPrefix_def no_value_file_def)
  have r: "''value'' \<in> {''key'', ''title'', ''value''}" by simp
  have m: "''value'' \<notin> set (map (\<lambda>h. TrimSpace (ToLower (Map_ToLower (example_env no_value_file)) h)) [''key'', ''title'', ''amount''])"
    by code_simp
  from missing_column_abandons_file [OF t g r m] t m
  show ?thesis by blast
qed

lemma has_key_iff:
  "has_key db tid k \<longleftrightarrow> (tid, k) \<in> set (map (\<lambda>r. (rec_TenantID r, RecordKey r)) (records db))"
  by (auto simp: has_key_def same_key_def)

lemma upsert_keys:
  "set (map (\<lambda>r. (rec_TenantID r, RecordKey r))
         (records (snd (UpsertRecord db now None tid k ti de ca va))))
   = insert (tid, k) (set (map (\<lambda>r. (rec_TenantID r, RecordKey r)) (records db)))"
proof (cases "\<exists>r \<in> set (records db). same_key tid k r")
  case False
  then show ?thesis by (simp add: UpsertRecord_def)
next
  case True
  let ?u = "\<lambda>r. if same_key tid k r
              then r\<lparr>Title := ti, Description := de, Category := ca, Value := va, UpdatedAt := now\<rparr>
              else r"
  have recs: "records (snd (UpsertRecord db now None tid k ti de ca va)) = map ?u (records db)"
    using True by (simp add: UpsertRecord_def)
  have keys: "(\<lambda>r. (rec_TenantID r, RecordKey r)) \<circ> ?u = (\<lambda>r. (rec_TenantID r, RecordKey r))"
    by (auto simp: fun_eq_iff)
  have same: "map (\<lambda>r. (rec_TenantID r, RecordKey r)) (map ?u (records db))
        = map (\<lambda>r. (rec_TenantID r, RecordKey r)) (records db)"
    by (simp only: map_map keys)
  from True have "(tid, k) \<in> set (map (\<lambda>r. (rec_TenantID r, RecordKey r)) (records db))"
    using has_key_iff [of db tid k] by (simp add: has_key_def)
  then show ?thesis
    by (simp only: recs same insert_absorb)
qed

lemma upsert_keeps_key:
  "has_key db tid' k' \<Longrightarrow>
   has_key (snd (UpsertRecord db now fault tid k ti de ca va)) tid' k'"
proof (cases fault)
  case None
  assume "has_key db tid' k'"
  then show ?thesis
    unfolding None has_key_iff upsert_keys by simp
next
  case (Some e)
  assume "has_key db tid' k'"
  then show ?thesis by (simp add: Some UpsertRecord_def)
qed

lemma upsert_adds_key:
  "has_key (snd (UpsertRecord db now None tid k ti de ca va)) tid k"
  unfolding has_key_iff upsert_keys by simp

lemma ingest_row_keeps_key:
  "has_key db tid' k' \<Longrightarrow> has_key (fst (ingest_row env tid n f db count)) tid' k'"
proof -
  assume h: "has_key db tid' k'"
  obtain k t d c raw where f: "f = (k, t, d, c, raw)" by (cases f) auto
  show ?thesis
  proof (cases "ParseFloat env raw")
    case (Inl e)
    with h f show ?thesis by (simp add: ingest_row_def)
  next
    case (Inr v)
    from upsert_keeps_key [OF h, of "Clock env" "exec_fault env n" tid k t d c v]
    show ?thesis
      by (cases "UpsertRecord db (Clock env) (exec_fault env n) tid k t d c v";
          cases "fst (UpsertRecord db (Clock env) (exec_fault env n) tid k t d c v)")
         (simp_all add: ingest_row_def f Inr)
  qed
qed

lemma process_rows_keeps_key:
  "has_key db tid' k' \<Longrightarrow>
   has_key (snd (process_rows env ci tid reader n db count)) tid' k'"
proof (induction env ci tid reader n db count rule: process_rows.induct)
  case (1 env ci tid reader n db count)
  obtain res reader' where rd: "csv_Read reader = (res, reader')"
    by (cases "csv_Read reader") auto
  show ?case
  proof (cases res)
    case EOF
    with rd "1.prems" show ?thesis by (simp add: process_rows.simps)
  next
    case (ReadError e)
    with rd "1.prems" show ?thesis by (simp add: process_rows.simps)
  next
    case (Row row)
    show ?thesis
    proof (cases "row_fields ci row")
      case None
      with rd Row "1.prems" show ?thesis by (simp add: process_rows.simps)
    next
      case (Some f)
      obtain db' count' where ir: "ingest_row env tid n f db count = (db', count')"
        by (cases "ingest_row env tid n f db count") auto
      have "has_key db' tid' k'"
        using ingest_row_keeps_key [OF "1.prems", of env tid n f count] by (simp add: ir)
      then have "has_key (snd (process_rows env ci tid reader' (Suc n) db' count')) tid' k'"
        using "1.IH" rd Row Some ir by simp
      then show ?thesis
        using rd Row Some ir by (simp add: process_rows.simps [of env ci tid reader])
    qed
  qed
qed

lemma colIndex_fold_Some:
  "length ns = length hs \<Longrightarrow>
   (fold (\<lambda>(i, h) m. m(TrimSpace (ToLower ml h) \<mapsto> i)) (zip ns hs) m) k = Some j \<Longrightarrow>
   j \<in> set ns \<or> m k = Some j"
proof (induction hs arbitrary: ns m)
  case Nil
  then show ?case by simp
next
  case (Cons h hs)
  then obtain i ns' where ns: "ns = i # ns'" "length ns' = length hs"
    by (cases ns) auto
  show ?case
    using Cons.IH [OF ns(2), of "m(TrimSpace (ToLower ml h) \<mapsto> i)"] Cons.prems(2)
    by (auto simp: ns split: if_splits)
qed

lemma build_colIndex_bound:
  "build_colIndex ml header k = Some j \<Longrightarrow> j < length header"
  unfolding build_colIndex_def
  using colIndex_fold_Some [of "[0..<length header]" header ml Map.empty k j] by simp

lemma row_fields_total:
  assumes "length row = length header"
      and "build_colIndex ml header ''key'' \<noteq> None"
      and "build_colIndex ml header ''title'' \<noteq> None"
      and "build_colIndex ml header ''value'' \<noteq> None"
  shows "row_fields (build_colIndex ml header) row \<noteq> None"
proof -
  have req: "build_colIndex ml header name \<noteq> None \<Longrightarrow>
      getField row (lookup0 (build_colIndex ml header) name) \<noteq> None" for name
    using build_colIndex_bound [of ml header name] assms(1)
    by (auto simp: getField_def lookup0_def)
  have opt: "optField (build_colIndex ml header) row name \<noteq> None" for name
    using build_colIndex_bound [of ml header name] assms(1)
    by (auto simp: optField_def getField_def split: option.splits)
  from req [OF assms(2)] req [OF assms(3)] req [OF assms(4)]
       opt [of "''description''"] opt [of "''category''"]
  show ?thesis
    by (auto simp: row_fields_def split: option.splits)
qed

lemma upsert_no_fault_ok:
  "fst (UpsertRecord db now None tid k ti de ca va) = None"
  by (simp add: UpsertRecord_def)

lemma ingest_row_result:
  assumes "row_fields ci row = Some f"
  shows "snd (ingest_row env tid m f db cnt) = cnt + (if row_ok env ci m row then 1 else 0)
         \<and> (row_ok env ci m row \<longrightarrow> has_key (fst (ingest_row env tid m f db cnt)) tid (row_key ci row))"
proof -
  obtain k t d c raw where f: "f = (k, t, d, c, raw)" by (cases f) auto
  show ?thesis
  proof (cases "ParseFloat env raw")
    case (Inl e)
    with assms f show ?thesis by (simp add: ingest_row_def row_ok_def)
  next
    case (Inr v)
    show ?thesis
    proof (cases "exec_fault env m")
      case None
      obtain db1 where u: "UpsertRecord db (Clock env) None tid k t d c v = (None, db1)"
        using upsert_no_fault_ok [of db "Clock env" tid k t d c v]
        by (cases "UpsertRecord db (Clock env) None tid k t d c v") auto
      from upsert_adds_key [of db "Clock env" tid k t d c v] have "has_key db1 tid k"
        by (simp add: u)
      with assms f Inr None u show ?thesis
        by (simp add: ingest_row_def row_ok_def row_key_def)
    next
      case (Some e)
      with assms f Inr show ?thesis
        by (simp add: ingest_row_def row_ok_def UpsertRecord_def)
    qed
  qed
qed

lemma skip_bad_row:
  assumes "csv_Read reader = (Row row, reader')"
      and "row_fields ci row = Some (k, t, d, c, raw)"
      and "isl (ParseFloat env raw) \<or> exec_fault env n \<noteq> None"
  shows "process_rows env ci tid reader n db count = process_rows env ci tid reader' (Suc n) db count"
proof -
  have "ingest_row env tid n (k, t, d, c, raw) db count = (db, count)"
    using assms(3)
    by (cases "ParseFloat env raw"; cases "exec_fault env n")
       (auto simp: ingest_row_def UpsertRecord_def)
  with assms(1,2) show ?thesis
    by (simp add: process_rows.simps [of env ci tid reader])
qed

lemma stop_on_read_error:
  assumes "csv_Read reader = (ReadError e, reader')"
  shows "process_rows env ci tid reader n db count = (Stopped (''CSV read error: '' @ e) count, db)"
  using assms by (simp add: process_rows.simps [of env ci tid reader])

lemma process_rows_prefix:
  assumes "FieldsPerRecord rd > 0"
      and "\<forall>row \<in> set rows. int (length row) = FieldsPerRecord rd \<and> row_fields ci row \<noteq> None"
      and "pending rd = map Line rows @ rest"
      and "fst (csv_Read (rd\<lparr>pending := rest\<rparr>)) = res"
      and "res = EOF \<or> res = ReadError e"
  shows "fst (process_rows env ci tid rd m db cnt)
           = (if res = EOF then Processed (cnt + count_ok env ci m rows)
              else Stopped (''CSV read error: '' @ e) (cnt + count_ok env ci m rows))
         \<and> (\<forall>i < length rows. row_ok env ci (m + i) (rows ! i) \<longrightarrow>
               has_key (snd (process_rows env ci tid rd m db cnt)) tid (row_key ci (rows ! i)))"
  using assms
proof (induction rows arbitrary: rd m db cnt)
  case Nil
  then have same: "rd\<lparr>pending := rest\<rparr> = rd" by simp
  obtain rd' where rd: "csv_Read rd = (res, rd')"
    using Nil.prems(4) same by (cases "csv_Read rd") auto
  from Nil.prems(5) show ?case
  proof
    assume "res = EOF"
    with rd show ?thesis by (simp add: process_rows.simps [of env ci tid rd])
  next
    assume "res = ReadError e"
    with rd show ?thesis by (simp add: process_rows.simps [of env ci tid rd])
  qed
next
  case (Cons row rows)
  let ?rd' = "rd\<lparr>pending := map Line rows @ rest\<rparr>"
  from Cons.prems have rd: "csv_Read rd = (Row row, ?rd')"
    by (simp add: csv_Read_def)
  from Cons.prems(2) obtain f where f: "row_fields ci row = Some f" by auto
  obtain db' cnt' where ir: "ingest_row env tid m f db cnt = (db', cnt')"
    by (cases "ingest_row env tid m f db cnt") auto
  from ingest_row_result [OF f, of env tid m db cnt] ir
  have cnt': "cnt' = cnt + (if row_ok env ci m row then 1 else 0)"
    and key0: "row_ok env ci m row \<longrightarrow> has_key db' tid (row_key ci row)"
    by simp_all
  have step: "process_rows env ci tid rd m db cnt = process_rows env ci tid ?rd' (Suc m) db' cnt'"
    using rd f ir by (simp add: process_rows.simps [of env ci tid rd])
  have ih: "fst (process_rows env ci tid ?rd' (Suc m) db' cnt')
           = (if res = EOF then Processed (cnt' + count_ok env ci (Suc m) rows)
              else Stopped (''CSV read error: '' @ e) (cnt' + count_ok env ci (Suc m) rows))
         \<and> (\<forall>i < length rows. row_ok env ci (Suc m + i) (rows ! i) \<longrightarrow>
               has_key (snd (process_rows env ci tid ?rd' (Suc m) db' cnt')) tid (row_key ci (rows ! i)))"
    using Cons.prems by (intro Cons.IH) simp_all
  have count: "fst (process_rows env ci tid rd m db cnt)
           = (if res = EOF then Processed (cnt + count_ok env ci m (row # rows))
              else Stopped (''CSV read error: '' @ e) (cnt + count_ok env ci m (row # rows)))"
    using ih cnt' by (simp add: step)
  have keys: "row_ok env ci (m + i) ((row # rows) ! i) \<longrightarrow>
               has_key (snd (process_rows env ci tid rd m db cnt)) tid (row_key ci ((row # rows) ! i))"
    if "i < length (row # rows)" for i
  proof (cases i)
    case 0
    with key0 process_rows_keeps_key [of db' tid "row_key ci row" env ci tid ?rd' "Suc m" cnt']
    show ?thesis by (auto simp: step)
  next
    case (Suc j)
    with that ih show ?thesis by (simp add: step)
  qed
  from count keys show ?case by blast
qed

lemma process_upload_runs_loop:
  assumes u: "event_string event ''username'' \<noteq> []"
      and v: "HasSuffix (ToLower (Map_ToLower env) (event_string event ''virtual_path'')) ''.csv''"
      and t: "GetTenantByUsername db (event_string event ''username'') = Inr tenant"
      and g: "GetObject env (bucket wk)
                (TenantID tenant @ ''/'' @ TrimPrefix (event_string event ''virtual_path'') ''/'')
              = Inr (Line header # items)"
      and r: "build_colIndex (Map_ToLower env) header ''key'' \<noteq> None"
             "build_colIndex (Map_ToLower env) header ''title'' \<noteq> None"
             "build_colIndex (Map_ToLower env) header ''value'' \<noteq> None"
  shows "ProcessUploadEvent env wk db event
           = process_rows env (build_colIndex (Map_ToLower env) header) (TenantID tenant)
               \<lparr>pending = items, FieldsPerRecord = int (length header)\<rparr> 0 db 0"
proof -
  from v have ne: "event_string event ''virtual_path'' \<noteq> []"
    by (auto simp: HasSuffix_def ToLower_def)
  have rd: "csv_Read (NewReader (Line header # items))
             = (Row header, \<lparr>pending = items, FieldsPerRecord = int (length header)\<rparr>)"
    by (simp add: csv_Read_def NewReader_def)
  from r have f: "find (\<lambda>required. build_colIndex (Map_ToLower env) header required = None)
                    [''key'', ''title'', ''value''] = None"
    by simp
  show ?thesis
    using u v ne t g rd f by (simp add: ProcessUploadEvent_def Let_def)
qed

lemma process_upload_file:
  assumes u: "event_string event ''username'' \<noteq> []"
      and v: "HasSuffix (ToLower (Map_ToLower env) (event_string event ''virtual_path'')) ''.csv''"
      and t: "GetTenantByUsername db (event_string event ''username'') = Inr tenant"
      and g: "GetObject env (bucket wk)
                (TenantID tenant @ ''/'' @ TrimPrefix (event_string event ''virtual_path'') ''/'')
              = Inr (Line header # map Line rows @ rest)"
      and r: "build_colIndex (Map_ToLower env) header ''key'' \<noteq> None"
             "build_colIndex (Map_ToLower env) header ''title'' \<noteq> None"
             "build_colIndex (Map_ToLower env) header ''value'' \<noteq> None"
      and l: "\<forall>row \<in> set rows. length row = length header"
      and e: "fst (csv_Read \<lparr>pending = rest, FieldsPerRecord = int (length header)\<rparr>) = res"
             "res = EOF \<or> res = ReadError err"
  shows "fst (ProcessUploadEvent env wk db event)
           = (if res = EOF then Processed (count_ok env (build_colIndex (Map_ToLower env) header) 0 rows)
              else Stopped (''CSV read error: '' @ err)
                     (count_ok env (build_colIndex (Map_ToLower env) header) 0 rows))
         \<and> (\<forall>i < length rows. row_ok env (build_colIndex (Map_ToLower env) header) i (rows ! i) \<longrightarrow>
               has_key (snd (ProcessUploadEvent env wk db event)) (TenantID tenant)
                 (row_key (build_colIndex (Map_ToLower env) header) (rows ! i)))"
proof -
  let ?rd = "\<lparr>pending = map Line rows @ rest, FieldsPerRecord = int (length header)\<rparr>"
  from r(1) obtain j where "build_colIndex (Map_ToLower env) header ''key'' = Some j" by auto
  then have "j < length header" by (rule build_colIndex_bound)
  then have pos: "FieldsPerRecord ?rd > 0" by (cases header) simp_all
  have shape: "\<forall>row \<in> set rows. int (length row) = FieldsPerRecord ?rd
                  \<and> row_fields (build_colIndex (Map_ToLower env) header) row \<noteq> None"
    using l r row_fields_total [of _ header "Map_ToLower env"] by simp
  have p: "pending ?rd = map Line rows @ rest" by simp
  have e': "fst (csv_Read (?rd\<lparr>pending := rest\<rparr>)) = res"
    using e(1) by simp
  from process_rows_prefix [OF pos shape p e' e(2), of env "TenantID tenant" 0 db 0]
       process_upload_runs_loop [OF u v t g r]
  show ?thesis by simp
qed

text \<open>
  Claim C7 as stated fails when a later row is one that the CSV reader rejects. The file
  has a row whose value does not parse, then a line of one field where the header has
  three, then a well-formed row, and the storage engine refuses nothing. The first row
  is skipped, the run stops at the short line with nothing upserted, and the well-formed
  row after it is not ingested.
\<close>

theorem short_row_stops_file_counterexample:
  "isl (ParseFloat (quiet_env short_row_file) ''abc'')
   \<and> fst (ProcessUploadEvent (quiet_env short_row_file) example_worker example_db example_event)
     = Stopped (''CSV read error: '' @ ErrFieldCount) 0
   \<and> snd (ProcessUploadEvent (quiet_env short_row_file) example_worker example_db example_event)
     = example_db
   \<and> row_ok (quiet_env short_row_file)
        (build_colIndex (Map_ToLower (quiet_env short_row_file)) good_header) 2 [''k1'', ''first'', ''10'']
   \<and> \<not> has_key (snd (ProcessUploadEvent (quiet_env short_row_file) example_worker example_db
                         example_event)) ''tid1'' ''k1''"
  by code_simp

text \<open>
  Claim C7, amended. In the row loop, a row whose value does not parse, and a row whose
  upsert the storage engine refuses, change neither the registry nor the count, and the
  loop goes on with the next row. A read error of the CSV reader (a malformed row, or a
  row whose number of fields is not the header's) ends the loop at that row and leaves
  the registry as the rows before it made it. For a file whose header has the required
  columns, the rows that precede the end of the file or the first read error are all
  processed: the run ends with the number of them that parsed and were accepted
  (finished at the end of the file, stopped at a read error), and the registry then
  holds a record for the key of each such row, whatever rows failed before or after it.
\<close>

theorem row_failures_skip_read_errors_stop:
  "(csv_Read reader = (Row row, reader') \<and> row_fields ci row = Some (k, t, d, c, raw) \<and>
    (isl (ParseFloat env raw) \<or> exec_fault env n \<noteq> None) \<longrightarrow>
      process_rows env ci tid reader n db count = process_rows env ci tid reader' (Suc n) db count)
   \<and> (csv_Read reader2 = (ReadError e, reader2') \<longrightarrow>
        process_rows env ci tid reader2 n db count = (Stopped (''CSV read error: '' @ e) count, db))
   \<and> (event_string event ''username'' \<noteq> [] \<and>
       HasSuffix (ToLower (Map_ToLower env) (event_string event ''virtual_path'')) ''.csv'' \<and>
       GetTenantByUsername db2 (event_string event ''username'') = Inr tenant \<and>
       GetObject env (bucket wk)
         (TenantID tenant @ ''/'' @ TrimPrefix (event_string event ''virtual_path'') ''/'')
         = Inr (Line header # map Line rows @ rest) \<and>
       build_colIndex (Map_ToLower env) header ''key'' \<noteq> None \<and>
       build_colIndex (Map_ToLower env) header ''title'' \<noteq> None \<and>
       build_colIndex (Map_ToLower env) header ''value'' \<noteq> None \<and>
       (\<forall>row \<in> set rows. length row = length header) \<and>
       fst (csv_Read \<lparr>pending = rest, FieldsPerRecord = int (length header)\<rparr>) = res \<and>
       (res = EOF \<or> res = ReadError err) \<longrightarrow>
         fst (ProcessUploadEvent env wk db2 event)
           = (if res = EOF then Processed (count_ok env (build_colIndex (Map_ToLower env) header) 0 rows)
              else Stopped (''CSV read error: '' @ err)
                     (count_ok env (build_colIndex (Map_ToLower env) header) 0 rows))
         \<and> (\<forall>i < length rows. row_ok env (build_colIndex (Map_ToLower env) header) i (rows ! i) \<longrightarrow>
               has_key (snd (ProcessUploadEvent env wk db2 event)) (TenantID tenant)
                 (row_key (build_colIndex (Map_ToLower env) header) (rows ! i))))"
proof -
  have step: "csv_Read reader = (Row row, reader') \<and> row_fields ci row = Some (k, t, d, c, raw) \<and>
    (isl (ParseFloat env raw) \<or> exec_fault env n \<noteq> None) \<longrightarrow>
      process_rows env ci tid reader n db count = process_rows env ci tid reader' (Suc n) db count"
    using skip_bad_row [of reader row reader' ci k t d c raw env n tid db count] by blast
  have stop: "csv_Read reader2 = (ReadError e, reader2') \<longrightarrow>
        process_rows env ci tid reader2 n db count = (Stopped (''CSV read error: '' @ e) count, db)"
    using stop_on_read_error [of reader2 e reader2' env ci tid n db count] by blast
  have whole: "event_string event ''username'' \<noteq> [] \<and>
       HasSuffix (ToLower (Map_ToLower env) (event_string event ''virtual_path'')) ''.csv'' \<and>
       GetTenantByUsername db2 (event_string event ''username'') = Inr tenant \<and>
       GetObject env (bucket wk)
         (TenantID tenant @ ''/'' @ TrimPrefix (event_string event ''virtual_path'') ''/'')
         = Inr (Line header # map Line rows @ rest) \<and>
       build_colIndex (Map_ToLower env) header ''key'' \<noteq> None \<and>
       build_colIndex (Map_ToLower env) header ''title'' \<noteq> None \<and>
       build_colIndex (Map_ToLower env) header ''value'' \<noteq> None \<and>
       (\<forall>row \<in> set rows. length row = length header) \<and>
       fst (csv_Read \<lparr>pending = rest, FieldsPerRecord = int (length header)\<rparr>) = res \<and>
       (res = EOF \<or> res = ReadError err) \<longrightarrow>
         fst (ProcessUploadEvent env wk db2 event)
           = (if res = EOF then Processed (count_ok env (build_colIndex (Map_ToLower env) header) 0 rows)
              else Stopped (''CSV read error: '' @ err)
                     (count_ok env (build_colIndex (Map_ToLower env) header) 0 rows))
         \<and> (\<forall>i < length rows. row_ok env (build_colIndex (Map_ToLower env) header) i (rows ! i) \<longrightarrow>
               has_key (snd (ProcessUploadEvent env wk db2 event)) (TenantID tenant)
                 (row_key (build_colIndex (Map_ToLower env) header) (rows ! i)))"
    using process_upload_file [of "event" env db2 tenant wk header rows rest res err] by blast
  from step stop whole show ?thesis by blast
qed

theorem row_failures_skip_read_errors_stop_witness:
  "isl (ParseFloat (example_env good_file) ''abc'')
   \<and> exec_fault (example_env good_file) 2 \<noteq> None
   \<and> process_rows (example_env good_file) (build_colIndex (Map_ToLower (example_env good_file)) good_header)
         ''tid1'' \<lparr>pending = map Line (tl good_rows), FieldsPerRecord = 3\<rparr> 1 example_db 0
       = process_rows (example_env good_file) (build_colIndex (Map_ToLower (example_env good_file)) good_header)
           ''tid1'' \<lparr>pending = map Line (tl (tl good_rows)), FieldsPerRecord = 3\<rparr> (Suc 1) example_db 0
   \<and> process_rows (example_env good_file) (build_colIndex (Map_ToLower (example_env good_file)) good_header)
         ''tid1'' \<lparr>pending = [Line [''k2'']], FieldsPerRecord = 3\<rparr> 1 example_db 0
       = (Stopped (''CSV read error: '' @ ErrFieldCount) 0, example_db)
   \<and> fst (ProcessUploadEvent (example_env good_file) example_worker example_db example_event)
       = Processed 2
   \<and> has_key (snd (ProcessUploadEvent (example_env good_file) example_worker example_db example_event))
        ''tid1'' ''k4''"
proof -
  let ?env = "example_env good_file"
  let ?ci = "build_colIndex (Map_ToLower (example_env good_file)) good_header"
  let ?rd = "\<lparr>pending = map Line (tl good_rows), FieldsPerRecord = 3\<rparr>"
  let ?rd' = "\<lparr>pending = map Line (tl (tl good_rows)), FieldsPerRecord = 3\<rparr>"
  let ?rd2 = "\<lparr>pending = [Line [''k2'']], FieldsPerRecord = 3\<rparr>"
  let ?rd2' = "\<lparr>pending = [], FieldsPerRecord = 3\<rparr>"
  have s1: "csv_Read ?rd = (Row [''k2'', ''second'', ''abc''], ?rd')"
    by (simp add: csv_Read_def good_rows_def)
  have s2: "row_fields ?ci [''k2'', ''second'', ''abc''] = Some (''k2'', ''second'', [], [], ''abc'')"
    by code_simp
  have s3: "isl (ParseFloat ?env ''abc'')"
    by code_simp
  have f2: "exec_fault ?env 2 \<noteq> None"
    by (simp add: example_env_def)
  have b1: "csv_Read ?rd2 = (ReadError ErrFieldCount, ?rd2')"
    by (simp add: csv_Read_def)
  have u: "event_string example_event ''username'' \<noteq> []"
    by (simp add: event_string_def example_event_def)
  have v: "HasSuffix (ToLower (Map_ToLower ?env) (event_string example_event ''virtual_path'')) ''.csv''"
    by code_simp
  have t: "GetTenantByUsername example_db (event_string example_event ''username'') = Inr example_tenant"
    by (simp add: GetTenantByUsername_def example_db_def example_event_def event_string_def
        example_tenant_def)
  have g: "GetObject ?env (bucket example_worker)
             (TenantID example_tenant @ ''/'' @ TrimPrefix (event_string example_event ''virtual_path'') ''/'')
           = Inr (Line good_header # map Line good_rows @ [])"
    by (simp add: example_env_def example_worker_def example_tenant_def example_event_def
        event_string_def TrimPrefix_def good_file_def good_header_def good_rows_def)
  have r: "?ci ''key'' \<noteq> None" "?ci ''title'' \<noteq> None" "?ci ''value'' \<noteq> None"
    by code_simp+
  have l: "\<forall>row \<in> set good_rows. length row = length good_header"
    by (simp add: good_rows_def good_header_def)
  have e: "fst (csv_Read \<lparr>pending = [], FieldsPerRecord = int (length good_header)\<rparr>) = EOF"
    by (simp add: csv_Read_def)
  have c: "count_ok ?env ?ci 0 good_rows = 2"
    by code_simp
  have k: "row_ok ?env ?ci 3 (good_rows ! 3)"
    by code_simp
  have rk: "row_key ?ci (good_rows ! 3) = ''k4''"
    by code_simp
  have tid: "TenantID example_tenant = ''tid1''"
    by (simp add: example_tenant_def)
  note th = row_failures_skip_read_errors_stop [where reader = ?rd and row = "[''k2'', ''second'', ''abc'']"
      and reader' = ?rd' and ci = ?ci and k = "''k2''" and t = "''second''" and d = "[]" and c = "[]"
      and raw = "''abc''" and env = ?env and n = 1 and tid = "''tid1''" and db = example_db
      and count = 0 and ?reader2.0 = ?rd2 and e = ErrFieldCount and reader2' = ?rd2'
      and event = example_event and ?db2.0 = example_db
      and tenant = example_tenant and wk = example_worker and header = good_header and rows = good_rows
      and rest = "[]" and res = EOF]
  from th s1 s2 s3 have skip:
    "process_rows ?env ?ci ''tid1'' ?rd 1 example_db 0
       = process_rows ?env ?ci ''tid1'' ?rd' (Suc 1) example_db 0"
    by blast
  from th b1 have stop:
    "process_rows ?env ?ci ''tid1'' ?rd2 1 example_db 0
       = (Stopped (''CSV read error: '' @ ErrFieldCount) 0, example_db)"
    by blast
  from th u v t g r l e have whole:
    "fst (ProcessUploadEvent ?env example_worker example_db example_event)
       = Processed (count_ok ?env ?ci 0 good_rows)
     \<and> (\<forall>i < length good_rows. row_ok ?env ?ci i (good_rows ! i) \<longrightarrow>
           has_key (snd (ProcessUploadEvent ?env example_worker example_db example_event))
             (TenantID example_tenant) (row_key ?ci (good_rows ! i)))"
    by simp
  have "(3::nat) < length good_rows" by (simp add: good_rows_def)
  with whole k have "has_key (snd (ProcessUploadEvent ?env example_worker example_db example_event))
             (TenantID example_tenant) (row_key ?ci (good_rows ! 3))"
    by blast
  with whole c rk tid s3 f2 skip stop show ?thesis by simp
qed


end
